theory Spec2Isabelle
  imports Complex_Main "HOL-Library.Sublist" "HOL-Library.Char_ord" "HOL-Library.List_Lexorder"
begin

section \<open>StayLive review ingestion: a shallow embedding\<close>

text \<open>
  The development follows \<^verbatim>\<open>scripts/ingest-hotel-data.ts\<close> (the pipeline driver with
  cohort selection and provider fallback) and \<^verbatim>\<open>scripts/ingest-top-hotels.ts\<close> (the same
  per-review steps over a fixed hotel list). Everything outside the two scripts is a
  parameter of the model:
  \<^item> the JavaScript built-ins \<^verbatim>\<open>JSON.parse\<close>, \<^verbatim>\<open>new Date(s)\<close> and \<^verbatim>\<open>Date.setDate\<close>, and the
    store library's \<^verbatim>\<open>createClient\<close>, are the fields of a \<open>runtime\<close> record;
  \<^item> the network services, the random source, the clock and the outcome of each store
    call are the fields of a \<open>world\<close> record, indexed by the number of interactions made
    so far, so that any sequence of answers can be supplied;
  \<^item> the store's tables are lists of rows carried in the state.
  A string is a list of code units below 256 (\<open>char list\<close>), read as the characters
  U+0000 to U+00FF; \<^verbatim>\<open>toLowerCase\<close>, \<^verbatim>\<open>trim\<close> and the regular-expression class \<^verbatim>\<open>\s\<close> are
  those of ECMAScript on that range. Ratings are whole numbers, times are milliseconds
  since the epoch. Logging and \<^verbatim>\<open>sleep\<close> change nothing that is modelled and are left out.
\<close>

subsection \<open>JavaScript values and strings\<close>

datatype jsval =
    JUndefined
  | JNull
  | JBool bool
  | JNum real
  | JStr string
  | JArr "jsval list"
  | JObj "(string \<times> jsval) list"

datatype js_error =
    TypeError | SyntaxError | ApiError | NetworkError | ClientError | MissingConfig "string list"

text \<open>Truthiness, as \<^verbatim>\<open>||\<close>, \<^verbatim>\<open>!\<close> and \<^verbatim>\<open>if\<close> test it.\<close>

fun truthy :: "jsval \<Rightarrow> bool" where
  "truthy JUndefined = False"
| "truthy JNull = False"
| "truthy (JBool b) = b"
| "truthy (JNum n) = (n \<noteq> 0)"
| "truthy (JStr s) = (s \<noteq> [])"
| "truthy (JArr xs) = True"
| "truthy (JObj kvs) = True"

text \<open>
  \<^verbatim>\<open>v.k\<close> for the property names the scripts read from parsed JSON (\<^verbatim>\<open>choices\<close>,
  \<^verbatim>\<open>message\<close>, \<^verbatim>\<open>content\<close>, \<^verbatim>\<open>insight\<close>, \<^verbatim>\<open>issueKey\<close>, \<^verbatim>\<open>severity\<close>): reading from
  \<^verbatim>\<open>null\<close> or \<^verbatim>\<open>undefined\<close> throws a TypeError, an object gives its member or
  \<^verbatim>\<open>undefined\<close>, and no other value has a property of one of these names. An object
  lists each of its keys once.
\<close>

fun getProp :: "jsval \<Rightarrow> string \<Rightarrow> js_error + jsval" where
  "getProp JUndefined k = Inl TypeError"
| "getProp JNull k = Inl TypeError"
| "getProp (JObj kvs) k = Inr (case map_of kvs k of Some v \<Rightarrow> v | None \<Rightarrow> JUndefined)"
| "getProp v k = Inr JUndefined"

text \<open>\<^verbatim>\<open>v?.k\<close>: \<^verbatim>\<open>undefined\<close> when \<open>v\<close> is nullish, the property otherwise.\<close>

fun optProp :: "jsval \<Rightarrow> string \<Rightarrow> jsval" where
  "optProp (JObj kvs) k = (case map_of kvs k of Some v \<Rightarrow> v | None \<Rightarrow> JUndefined)"
| "optProp v k = JUndefined"

text \<open>\<^verbatim>\<open>v?.[0]\<close>: the first element of an array, the first character of a string, the
  member \<^verbatim>\<open>"0"\<close> of an object.\<close>

fun optIndex0 :: "jsval \<Rightarrow> jsval" where
  "optIndex0 (JArr xs) = (case xs of [] \<Rightarrow> JUndefined | x # _ \<Rightarrow> x)"
| "optIndex0 (JStr s) = (case s of [] \<Rightarrow> JUndefined | c # _ \<Rightarrow> JStr [c])"
| "optIndex0 (JObj kvs) = (case map_of kvs ''0'' of Some v \<Rightarrow> v | None \<Rightarrow> JUndefined)"
| "optIndex0 v = JUndefined"

text \<open>
  The upper-case letters below U+0100 and their lower-case forms: A to Z, and U+00C0 to
  U+00DE without the multiplication sign U+00D7. \<^verbatim>\<open>toLowerCase\<close> leaves every other
  character of the range as it is.
\<close>

definition upperChars :: string where
  "upperChars =
     ''ABCDEFGHIJKLMNOPQRSTUVWXYZ'' @
     [CHR 0xC0, CHR 0xC1, CHR 0xC2, CHR 0xC3, CHR 0xC4, CHR 0xC5, CHR 0xC6,
      CHR 0xC7, CHR 0xC8, CHR 0xC9, CHR 0xCA, CHR 0xCB, CHR 0xCC, CHR 0xCD,
      CHR 0xCE, CHR 0xCF, CHR 0xD0, CHR 0xD1, CHR 0xD2, CHR 0xD3, CHR 0xD4,
      CHR 0xD5, CHR 0xD6, CHR 0xD8, CHR 0xD9, CHR 0xDA, CHR 0xDB, CHR 0xDC,
      CHR 0xDD, CHR 0xDE]"

definition lowerChars :: string where
  "lowerChars =
     ''abcdefghijklmnopqrstuvwxyz'' @
     [CHR 0xE0, CHR 0xE1, CHR 0xE2, CHR 0xE3, CHR 0xE4, CHR 0xE5, CHR 0xE6,
      CHR 0xE7, CHR 0xE8, CHR 0xE9, CHR 0xEA, CHR 0xEB, CHR 0xEC, CHR 0xED,
      CHR 0xEE, CHR 0xEF, CHR 0xF0, CHR 0xF1, CHR 0xF2, CHR 0xF3, CHR 0xF4,
      CHR 0xF5, CHR 0xF6, CHR 0xF8, CHR 0xF9, CHR 0xFA, CHR 0xFB, CHR 0xFC,
      CHR 0xFD, CHR 0xFE]"

definition toLowerChar :: "char \<Rightarrow> char" where
  "toLowerChar c = (case map_of (zip upperChars lowerChars) c of Some l \<Rightarrow> l | None \<Rightarrow> c)"

definition toLowerCase :: "string \<Rightarrow> string" where
  "toLowerCase s = map toLowerChar s"

text \<open>
  White space and line terminators, as \<^verbatim>\<open>trim\<close>, \<^verbatim>\<open>\s\<close> and \<^verbatim>\<open>parseInt\<close> understand them:
  below U+0100 these are the space, tab, line feed, vertical tab, form feed, carriage
  return and the no-break space U+00A0.
\<close>

definition isSpace :: "char \<Rightarrow> bool" where
  "isSpace c =
     (c \<in> set [CHR '' '', CHR 0x09, CHR 0x0A, CHR 0x0B, CHR 0x0C, CHR 0x0D, CHR 0xA0])"

definition trim :: "string \<Rightarrow> string" where
  "trim s = rev (dropWhile isSpace (rev (dropWhile isSpace s)))"

fun join :: "string \<Rightarrow> string list \<Rightarrow> string" where
  "join sep [] = []"
| "join sep [x] = x"
| "join sep (x # y # ys) = x @ sep @ join sep (y # ys)"

text \<open>\<^verbatim>\<open>s.replace(pat, rep)\<close> with a string pattern: the first occurrence only.\<close>

fun replaceFirst :: "string \<Rightarrow> string \<Rightarrow> string \<Rightarrow> string" where
  "replaceFirst pat rep [] = (if pat = [] then rep else [])"
| "replaceFirst pat rep (c # cs) =
     (if prefix pat (c # cs) then rep @ drop (length pat) (c # cs)
      else c # replaceFirst pat rep cs)"

subsection \<open>Issue categories\<close>

definition VALID_ISSUE_KEYS :: "string list" where
  "VALID_ISSUE_KEYS =
     [''power'', ''construction'', ''water'', ''wifi'', ''ac'', ''elevator'',
      ''noise'', ''pool'', ''restaurant'', ''cleaning'', ''other'']"

text \<open>
  \<^verbatim>\<open>key?.toLowerCase().trim()\<close>: a nullish key short-circuits the chain to
  \<^verbatim>\<open>undefined\<close>, which is not in the list; a string is lowered and trimmed; any
  other value has no \<^verbatim>\<open>toLowerCase\<close> method, and calling it throws a TypeError.
\<close>

definition validateIssueKey :: "jsval \<Rightarrow> js_error + string" where
  "validateIssueKey key =
     (case key of
        JUndefined \<Rightarrow> Inr ''other''
      | JNull \<Rightarrow> Inr ''other''
      | JStr s \<Rightarrow>
          (let normalized = trim (toLowerCase s)
           in Inr (if normalized \<in> set VALID_ISSUE_KEYS then normalized else ''other''))
      | _ \<Rightarrow> Inl TypeError)"

subsection \<open>Configuration\<close>

record config =
  GOOGLE_MAPS_API_KEY :: string
  TRIPADVISOR_API_KEY :: string
  DEEPSEEK_API_KEY :: string
  DEEPSEEK_API_URL :: string
  SUPABASE_URL :: string
  SUPABASE_SERVICE_KEY :: string
  MAX_HOTELS :: nat
  MAX_REVIEWS_PER_HOTEL :: nat
  MAX_REVIEW_RATING :: int
  MAX_REVIEW_AGE_DAYS :: int
  SYSTEM_REPORTER_NAME :: string
  ANONYMOUS_PROBABILITY :: real
  RANDOM_SAMPLE_SIZE :: int

text \<open>\<^verbatim>\<open>process.env.K || d\<close>: an unset or empty variable gives the default.\<close>

definition envOr :: "(string \<Rightarrow> string option) \<Rightarrow> string \<Rightarrow> string \<Rightarrow> string" where
  "envOr penv k d = (case penv k of None \<Rightarrow> d | Some v \<Rightarrow> if v = [] then d else v)"

text \<open>\<^verbatim>\<open>CONFIG\<close> of \<^verbatim>\<open>ingest-hotel-data.ts\<close>.\<close>

definition CONFIG :: "(string \<Rightarrow> string option) \<Rightarrow> config" where
  "CONFIG penv =
     \<lparr> GOOGLE_MAPS_API_KEY = envOr penv ''GOOGLE_MAPS_API_KEY'' [],
       TRIPADVISOR_API_KEY = envOr penv ''TRIPADVISOR_API_KEY'' [],
       DEEPSEEK_API_KEY = envOr penv ''DEEPSEEK_API_KEY'' [],
       DEEPSEEK_API_URL =
         envOr penv ''DEEPSEEK_API_URL'' ''https://api.deepseek.com/v1/chat/completions'',
       SUPABASE_URL = envOr penv ''NEXT_PUBLIC_SUPABASE_URL'' [],
       SUPABASE_SERVICE_KEY = envOr penv ''SUPABASE_SERVICE_ROLE_KEY'' [],
       MAX_HOTELS = 300,
       MAX_REVIEWS_PER_HOTEL = 20,
       MAX_REVIEW_RATING = 3,
       MAX_REVIEW_AGE_DAYS = 30,
       SYSTEM_REPORTER_NAME = ''StayLive Assistant'',
       ANONYMOUS_PROBABILITY = 3 / 10,
       RANDOM_SAMPLE_SIZE = 20 \<rparr>"

text \<open>
  \<^verbatim>\<open>CONFIG\<close> of \<^verbatim>\<open>ingest-top-hotels.ts\<close>: no age limit; the Google key, the hotel bound
  and the sample size are not part of it and are not read there.
\<close>

definition CONFIG_top :: "(string \<Rightarrow> string option) \<Rightarrow> config" where
  "CONFIG_top penv =
     (CONFIG penv) \<lparr> GOOGLE_MAPS_API_KEY := [], MAX_REVIEW_AGE_DAYS := 0 \<rparr>"

text \<open>\<^verbatim>\<open>validateConfig\<close> throws when a required key is empty.\<close>

definition missingOf :: "(string \<times> string) list \<Rightarrow> string list" where
  "missingOf required = map fst (filter (\<lambda>(k, v). v = []) required)"

definition validateConfig :: "config \<Rightarrow> js_error + unit" where
  "validateConfig cfg =
     (let missing = missingOf
            [(''GOOGLE_MAPS_API_KEY'', GOOGLE_MAPS_API_KEY cfg),
             (''TRIPADVISOR_API_KEY'', TRIPADVISOR_API_KEY cfg),
             (''DEEPSEEK_API_KEY'', DEEPSEEK_API_KEY cfg),
             (''SUPABASE_URL'', SUPABASE_URL cfg),
             (''SUPABASE_SERVICE_KEY'', SUPABASE_SERVICE_KEY cfg)]
      in if length missing > 0 then Inl (MissingConfig missing) else Inr ())"

definition validateConfig_top :: "config \<Rightarrow> js_error + unit" where
  "validateConfig_top cfg =
     (let missing = missingOf
            [(''TRIPADVISOR_API_KEY'', TRIPADVISOR_API_KEY cfg),
             (''DEEPSEEK_API_KEY'', DEEPSEEK_API_KEY cfg),
             (''SUPABASE_URL'', SUPABASE_URL cfg),
             (''SUPABASE_SERVICE_KEY'', SUPABASE_SERVICE_KEY cfg)]
      in if length missing > 0 then Inl (MissingConfig missing) else Inr ())"

subsection \<open>Command line\<close>

record flags =
  useRandomSampling :: bool
  useUnprocessedOnly :: bool
  RANDOM_SAMPLE_COUNT :: "int option"

text \<open>
  \<^verbatim>\<open>parseInt(s, 10)\<close>: leading white space, an optional sign, then the longest run of
  digits; \<open>None\<close> is \<^verbatim>\<open>NaN\<close> (no digit). The value is an exact integer.
\<close>

definition digitOf :: "char \<Rightarrow> nat option" where
  "digitOf c = map_of (zip ''0123456789'' [0, 1, 2, 3, 4, 5, 6, 7, 8, 9]) c"

definition digitsValue :: "string \<Rightarrow> nat" where
  "digitsValue ds = fold (\<lambda>c n. 10 * n + (case digitOf c of Some d \<Rightarrow> d | None \<Rightarrow> 0)) ds 0"

definition parseInt10 :: "string \<Rightarrow> int option" where
  "parseInt10 s =
     (let t = dropWhile isSpace s;
          neg = (case t of [] \<Rightarrow> False | c # _ \<Rightarrow> c = CHR ''-'');
          u = (case t of [] \<Rightarrow> [] | c # r \<Rightarrow> if c = CHR ''-'' \<or> c = CHR ''+'' then r else t);
          ds = takeWhile (\<lambda>c. digitOf c \<noteq> None) u
      in if ds = [] then None
         else Some (if neg then - int (digitsValue ds) else int (digitsValue ds)))"

text \<open>\<^verbatim>\<open>arg.split('=')[1]\<close> of an argument that holds a \<^verbatim>\<open>=\<close>.\<close>

definition afterEquals :: "string \<Rightarrow> string" where
  "afterEquals arg =
     takeWhile (\<lambda>c. c \<noteq> CHR ''='') (drop 1 (dropWhile (\<lambda>c. c \<noteq> CHR ''='') arg))"

definition parseArgs :: "config \<Rightarrow> string list \<Rightarrow> flags" where
  "parseArgs cfg args =
     (let randomSizeArg = find (\<lambda>arg. prefix ''--random='' arg) args
      in \<lparr> useRandomSampling = (''--random'' \<in> set args \<or> randomSizeArg \<noteq> None),
           useUnprocessedOnly = (''--unprocessed'' \<in> set args),
           RANDOM_SAMPLE_COUNT =
             (case randomSizeArg of
                Some arg \<Rightarrow> parseInt10 (afterEquals arg)
              | None \<Rightarrow> Some (RANDOM_SAMPLE_SIZE cfg)) \<rparr>)"

subsection \<open>Built-ins and the outside world\<close>

record runtime =
  JSON_parse :: "string \<Rightarrow> jsval option"
  Date_parse :: "string \<Rightarrow> int option"
  Date_minusDays :: "int \<Rightarrow> int \<Rightarrow> int"
  createClient :: "string \<Rightarrow> string \<Rightarrow> js_error + unit"

text \<open>
  \<open>JSON_parse rt s\<close> is \<^verbatim>\<open>JSON.parse(s)\<close>, \<open>None\<close> when it throws. \<open>Date_parse rt s\<close> is the
  time value of \<^verbatim>\<open>new Date(s)\<close> in milliseconds, \<open>None\<close> for an Invalid Date (\<^verbatim>\<open>NaN\<close>).
  \<open>Date_minusDays rt t n\<close> is the time value of a date \<open>d\<close> with time value \<open>t\<close> after
  \<^verbatim>\<open>d.setDate(d.getDate() - n)\<close>. \<open>createClient rt url key\<close> is \<^verbatim>\<open>createClient(url, key)\<close> of
  the store library: \<open>Inr ()\<close> when it returns a client, \<open>Inl e\<close> when it throws (as it
  does for a URL it does not accept).
\<close>

text \<open>
  The outcome of \<^verbatim>\<open>fetch\<close> followed by \<^verbatim>\<open>response.json()\<close>: the request fails, or a
  response arrives with its \<^verbatim>\<open>ok\<close> flag and its body (\<open>None\<close> when \<^verbatim>\<open>json()\<close> rejects).
\<close>

datatype 'a fetch_result = NetworkFailure | HttpReply bool "'a option"

record ta_location =
  location_id :: string
  loc_name :: string

record ta_review =
  ta_id :: string
  ta_title :: string
  ta_text :: string
  ta_rating :: int
  published_date :: string

record google_review =
  g_name :: string
  g_rating :: int
  g_text :: "string option"
  g_originalText :: "string option"
  publishTime :: string
  g_displayName :: "string option"

datatype review_source = tripadvisor | google

record unified_review =
  rv_id :: string
  rv_text :: string
  rv_rating :: int
  publishDate :: string
  rv_source :: review_source
  authorName :: "string option"

datatype prompt_file = PromptMissing | PromptUnreadable | PromptContent string

datatype insert_outcome = Inserted | InsertError | InsertThrows

text \<open>\<^verbatim>\<open>Math.random()\<close> returns a number in \<open>[0, 1)\<close>.\<close>

typedef unit_interval = "{r :: real. 0 \<le> r \<and> r < 1}"
  by (rule exI [of _ 0]) simp

text \<open>
  The world answers the \<open>n\<close>-th interaction of a run. The provider payloads are typed as
  the scripts' interfaces declare them: \<open>data.data\<close> of a TripAdvisor body and
  \<open>data.reviews\<close> of a Google body are a list, or absent. The body of a model reply is an
  arbitrary JSON value. A store read resolves to \<^verbatim>\<open>{data, error}\<close>: \<open>selectFails\<close> says
  that \<^verbatim>\<open>data\<close> is \<^verbatim>\<open>null\<close> (the client reports errors in the result and does not
  throw).
\<close>

record world =
  mathRandom :: "nat \<Rightarrow> unit_interval"
  dateNow :: "nat \<Rightarrow> int"
  tripAdvisorSearch :: "nat \<Rightarrow> string \<Rightarrow> ta_location list option fetch_result"
  tripAdvisorReviews :: "nat \<Rightarrow> string \<Rightarrow> ta_review list option fetch_result"
  googlePlaceDetails :: "nat \<Rightarrow> string \<Rightarrow> google_review list option fetch_result"
  deepSeek :: "nat \<Rightarrow> string \<Rightarrow> string \<Rightarrow> jsval fetch_result"
  selectFails :: "nat \<Rightarrow> bool"
  insertOutcome :: "nat \<Rightarrow> insert_outcome"
  promptFile :: prompt_file

subsection \<open>Review filter\<close>

definition isReviewWithinDateLimit :: "config \<Rightarrow> runtime \<Rightarrow> int \<Rightarrow> string \<Rightarrow> bool" where
  "isReviewWithinDateLimit cfg rt now pd =
     (if MAX_REVIEW_AGE_DAYS cfg = 0 then True
      else
        (let reviewDate = Date_parse rt pd;
             cutoffDate = Date_minusDays rt now (MAX_REVIEW_AGE_DAYS cfg)
         in case reviewDate of None \<Rightarrow> False | Some d \<Rightarrow> d \<ge> cutoffDate))"

text \<open>
  The filter chain of the driver (\<^verbatim>\<open>.filter(rating).filter(date)\<close>) on unified reviews.
  One pass reads the clock once: \<open>now\<close>.
\<close>

definition filterNegative ::
  "config \<Rightarrow> runtime \<Rightarrow> int \<Rightarrow> unified_review list \<Rightarrow> unified_review list" where
  "filterNegative cfg rt now reviews =
     filter (\<lambda>r. isReviewWithinDateLimit cfg rt now (publishDate r))
       (filter (\<lambda>r. rv_rating r \<le> MAX_REVIEW_RATING cfg) reviews)"

subsection \<open>Prompt loading\<close>

text \<open>The lazy capture \<^verbatim>\<open>([\s\S]*?)```\<close>: the text before the first fence.\<close>

fun beforeFence :: "string \<Rightarrow> string option" where
  "beforeFence [] = None"
| "beforeFence (c # cs) =
     (if prefix ''```'' (c # cs) then Some []
      else map_option (\<lambda>r. c # r) (beforeFence cs))"

text \<open>\<^verbatim>\<open>content.match(/## System Prompt\s*```([\s\S]*?)```/)\<close>: group 1 of the leftmost match.\<close>

fun matchSystemPrompt :: "string \<Rightarrow> string option" where
  "matchSystemPrompt [] = None"
| "matchSystemPrompt (c # cs) =
     (if prefix ''## System Prompt'' (c # cs) then
        (let r = dropWhile isSpace (drop (length ''## System Prompt'') (c # cs))
         in if prefix ''```'' r then
              (case beforeFence (drop 3 r) of
                 Some g \<Rightarrow> Some g
               | None \<Rightarrow> matchSystemPrompt cs)
            else matchSystemPrompt cs)
      else matchSystemPrompt cs)"

text \<open>\<open>Inl code\<close> is \<^verbatim>\<open>process.exit(code)\<close>.\<close>

definition loadSystemPrompt :: "prompt_file \<Rightarrow> nat + string" where
  "loadSystemPrompt f =
     (case f of
        PromptMissing \<Rightarrow> Inl 1
      | PromptUnreadable \<Rightarrow> Inl 1
      | PromptContent content \<Rightarrow>
          (case matchSystemPrompt content of
             None \<Rightarrow> Inl 1
           | Some g \<Rightarrow> Inr (trim g)))"

subsection \<open>Store rows, calls and the run state\<close>

datatype severity = Warning | Critical

datatype report_source = User | System

text \<open>
  A row of the \<^verbatim>\<open>reports\<close> table. \<open>hotel_id\<close> is the column that
  \<^verbatim>\<open>fetchUnprocessedHotels\<close> reads; no insert of the repository sets it, so a row written
  by the pipeline holds \<^verbatim>\<open>null\<close> there.
\<close>

record report_row =
  hotel_id :: "string option"
  hotel_name :: string
  issue_key :: string
  severity :: severity
  description :: jsval
  reporter_id :: "string option"
  is_anonymous :: bool
  is_verified :: bool
  report_source :: report_source
  system_reporter_name :: "string option"
  external_review_id :: "string option"
  external_review_date :: "string option"
  created_at :: string

text \<open>\<^verbatim>\<open>ProcessedReport\<close>, the value handed to \<^verbatim>\<open>upsertReport\<close>.\<close>

record processed_report =
  rp_hotel_name :: string
  rp_issue_key :: string
  rp_severity :: severity
  rp_description :: jsval
  rp_is_anonymous :: bool
  rp_is_verified :: bool
  rp_source :: report_source
  rp_system_reporter_name :: "string option"
  rp_external_review_id :: string
  rp_external_review_date :: string

record db_hotel =
  h_id :: string
  h_name :: string
  google_place_id :: "string option"

text \<open>The external calls of a run, in the order they are made.\<close>

datatype call =
    TripAdvisorSearch string
  | TripAdvisorReviews string
  | GoogleReviews string
  | StoreLookup string
  | ModelCall string string
  | StoreInsert report_row
  | SelectReportHotelIds
  | SelectHotels

record state =
  clock :: nat
  hotelsTable :: "db_hotel list"
  reportsTable :: "report_row list"
  trace :: "call list"
  totalReviews :: nat
  skippedReviews :: nat
  successfulReports :: nat

definition interact :: "call \<Rightarrow> state \<Rightarrow> state" where
  "interact c st = st \<lparr> clock := clock st + 1, trace := trace st @ [c] \<rparr>"

definition shouldBeAnonymous :: "config \<Rightarrow> world \<Rightarrow> state \<Rightarrow> bool \<times> state" where
  "shouldBeAnonymous cfg w st =
     (Rep_unit_interval (mathRandom w (clock st)) < ANONYMOUS_PROBABILITY cfg,
      st \<lparr> clock := clock st + 1 \<rparr>)"

subsection \<open>Review source adapters\<close>

definition searchHotelTripAdvisor :: "world \<Rightarrow> string \<Rightarrow> state \<Rightarrow> ta_location option \<times> state" where
  "searchHotelTripAdvisor w hotelName st =
     (let response = tripAdvisorSearch w (clock st) hotelName;
          st' = interact (TripAdvisorSearch hotelName) st
      in (case response of
            NetworkFailure \<Rightarrow> None
          | HttpReply ok body \<Rightarrow>
              if \<not> ok then None
              else (case body of
                      None \<Rightarrow> None
                    | Some None \<Rightarrow> None
                    | Some (Some []) \<Rightarrow> None
                    | Some (Some (l # _)) \<Rightarrow> Some l),
          st'))"

definition fetchTripAdvisorReviews ::
  "config \<Rightarrow> runtime \<Rightarrow> world \<Rightarrow> string \<Rightarrow> state \<Rightarrow> ta_review list \<times> state" where
  "fetchTripAdvisorReviews cfg rt w locationId st =
     (let response = tripAdvisorReviews w (clock st) locationId;
          now = dateNow w (clock st);
          st' = interact (TripAdvisorReviews locationId) st
      in (case response of
            NetworkFailure \<Rightarrow> []
          | HttpReply ok body \<Rightarrow>
              if \<not> ok then []
              else (case body of
                      None \<Rightarrow> []
                    | Some None \<Rightarrow> []
                    | Some (Some rs) \<Rightarrow>
                        take (MAX_REVIEWS_PER_HOTEL cfg)
                          (filter (\<lambda>r. isReviewWithinDateLimit cfg rt now (published_date r))
                             (filter (\<lambda>r. ta_rating r \<le> MAX_REVIEW_RATING cfg) rs))),
          st'))"

definition convertTripAdvisorToUnified :: "ta_review list \<Rightarrow> unified_review list" where
  "convertTripAdvisorToUnified reviews =
     map (\<lambda>review.
            \<lparr> rv_id = ''tripadvisor_'' @ ta_id review,
              rv_text = ta_text review,
              rv_rating = ta_rating review,
              publishDate = published_date review,
              rv_source = tripadvisor,
              authorName = None \<rparr>) reviews"

text \<open>\<^verbatim>\<open>a || b || ''\<close> on optional strings: the first that is present and not empty.\<close>

definition orElse :: "string option \<Rightarrow> string \<Rightarrow> string" where
  "orElse a b = (case a of None \<Rightarrow> b | Some s \<Rightarrow> if s = [] then b else s)"

definition googleToUnified :: "google_review \<Rightarrow> unified_review" where
  "googleToUnified review =
     \<lparr> rv_id = ''google_'' @
         replaceFirst ''/reviews/'' ''_'' (replaceFirst ''places/'' [] (g_name review)),
       rv_text = orElse (g_originalText review) (orElse (g_text review) []),
       rv_rating = g_rating review,
       publishDate = publishTime review,
       rv_source = google,
       authorName = g_displayName review \<rparr>"

definition fetchGoogleReviewsAll ::
  "config \<Rightarrow> world \<Rightarrow> string \<Rightarrow> string \<Rightarrow> state \<Rightarrow> unified_review list \<times> state" where
  "fetchGoogleReviewsAll cfg w placeId hotelName st =
     (let response = googlePlaceDetails w (clock st) placeId;
          st' = interact (GoogleReviews placeId) st
      in (case response of
            NetworkFailure \<Rightarrow> []
          | HttpReply ok body \<Rightarrow>
              if \<not> ok then []
              else (case body of
                      None \<Rightarrow> []
                    | Some None \<Rightarrow> []
                    | Some (Some rs) \<Rightarrow>
                        map googleToUnified (take (MAX_REVIEWS_PER_HOTEL cfg) rs)),
          st'))"

subsection \<open>Insight transformer\<close>

record insight_result =
  insight :: jsval
  issueKey :: string
  res_severity :: severity

definition userPromptOf :: "string \<Rightarrow> string \<Rightarrow> bool \<Rightarrow> string" where
  \<open>userPromptOf hotelName reviewText isAnonymous =
     (let perspective = (if isAnonymous then ''FIRST_PERSON'' else ''THIRD_PERSON'');
          perspectiveInstruction =
            (if isAnonymous
             then ''Write in FIRST PERSON as if you are the guest (use "I", "my", "me").''
             else ''Write in THIRD PERSON as a professional analyst (use "Guest reported", "A visitor noted").'')
      in join [CHR 0x0A]
           [''Hotel: '' @ hotelName,
            ''Review: "'' @ reviewText @ ''"'',
            [],
            ''**Perspective: '' @ perspective @ ''**'',
            perspectiveInstruction,
            [],
            ''Analyze this review and provide:'',
            ''1. A safety insight (1-2 sentences) in the specified perspective'',
            ''2. The most relevant issue category from: '' @ join '', '' VALID_ISSUE_KEYS,
            ''3. Severity level: "critical" if it poses immediate safety/health risk, otherwise "warning"'',
            [],
            ''Respond in JSON format only:'',
            ''{"insight": "...", "issueKey": "...", "severity": "..."}''])\<close>

text \<open>
  \<^verbatim>\<open>content.match(/\{[\s\S]*\}/)\<close>: from the first \<^verbatim>\<open>{\<close> to the last \<^verbatim>\<open>}\<close> after it;
  no match when no \<^verbatim>\<open>}\<close> follows the first \<^verbatim>\<open>{\<close>.
\<close>

definition matchJson :: "string \<Rightarrow> string option" where
  "matchJson content =
     (let fromBrace = dropWhile (\<lambda>c. c \<noteq> CHR ''{'') content
      in if CHR ''}'' \<in> set fromBrace
         then Some (rev (dropWhile (\<lambda>c. c \<noteq> CHR ''}'') (rev fromBrace)))
         else None)"

text \<open>
  \<^verbatim>\<open>data.choices?.[0]?.message?.content || ''\<close>, then \<^verbatim>\<open>content.match\<close>: reading
  \<^verbatim>\<open>choices\<close> from a \<^verbatim>\<open>null\<close> body throws, and so does calling \<^verbatim>\<open>match\<close> on a content
  that is truthy and not a string.
\<close>

definition contentOf :: "jsval \<Rightarrow> js_error + string" where
  "contentOf data =
     (case getProp data ''choices'' of
        Inl e \<Rightarrow> Inl e
      | Inr choices \<Rightarrow>
          (let c = optProp (optProp (optIndex0 choices) ''message'') ''content''
           in if \<not> truthy c then Inr []
              else (case c of JStr s \<Rightarrow> Inr s | _ \<Rightarrow> Inl TypeError)))"

text \<open>The object returned for a parsed reply; \<^verbatim>\<open>validateIssueKey\<close> may throw.\<close>

definition resultOfParsed :: "jsval \<Rightarrow> js_error + insight_result" where
  "resultOfParsed parsed =
     (case getProp parsed ''insight'' of
        Inl e \<Rightarrow> Inl e
      | Inr i \<Rightarrow>
          (case getProp parsed ''issueKey'' of
             Inl e \<Rightarrow> Inl e
           | Inr k \<Rightarrow>
               (case validateIssueKey k of
                  Inl e \<Rightarrow> Inl e
                | Inr key \<Rightarrow>
                    (case getProp parsed ''severity'' of
                       Inl e \<Rightarrow> Inl e
                     | Inr s \<Rightarrow>
                         Inr \<lparr> insight =
                                 (if truthy i then i
                                  else JStr ''Safety concern reported by guest.''),
                               issueKey = key,
                               res_severity =
                                 (if s = JStr ''critical'' then Critical else Warning) \<rparr>))))"

text \<open>The body of the \<^verbatim>\<open>try\<close> block, from the response on.\<close>

definition tryTransform :: "runtime \<Rightarrow> jsval fetch_result \<Rightarrow> js_error + insight_result" where
  "tryTransform rt response =
     (case response of
        NetworkFailure \<Rightarrow> Inl NetworkError
      | HttpReply ok body \<Rightarrow>
          if \<not> ok then Inl ApiError
          else (case body of
                  None \<Rightarrow> Inl SyntaxError
                | Some data \<Rightarrow>
                    (case contentOf data of
                       Inl e \<Rightarrow> Inl e
                     | Inr content \<Rightarrow>
                         (case matchJson content of
                            Some m \<Rightarrow>
                              (case JSON_parse rt m of
                                 None \<Rightarrow> Inl SyntaxError
                               | Some parsed \<Rightarrow> resultOfParsed parsed)
                          | None \<Rightarrow>
                              Inr \<lparr> insight =
                                      JStr (if take 500 content \<noteq> [] then take 500 content
                                            else ''Guest reported concerns during stay.''),
                                    issueKey = ''other'',
                                    res_severity = Warning \<rparr>))))"

text \<open>The result of the \<^verbatim>\<open>catch\<close> block.\<close>

definition catchFallback :: insight_result where
  "catchFallback =
     \<lparr> insight = JStr ''Guest reported concerns during their stay.'',
       issueKey = ''other'',
       res_severity = Warning \<rparr>"

definition interpretReply :: "runtime \<Rightarrow> jsval fetch_result \<Rightarrow> insight_result" where
  "interpretReply rt response =
     (case tryTransform rt response of Inl e \<Rightarrow> catchFallback | Inr r \<Rightarrow> r)"

definition transformReviewToSafetyInsight ::
  "runtime \<Rightarrow> world \<Rightarrow> string \<Rightarrow> string \<Rightarrow> string \<Rightarrow> bool \<Rightarrow> state \<Rightarrow> insight_result \<times> state" where
  "transformReviewToSafetyInsight rt w reviewText hotelName systemPrompt isAnonymous st =
     (let userPrompt = userPromptOf hotelName reviewText isAnonymous;
          response = deepSeek w (clock st) systemPrompt userPrompt
      in (interpretReply rt response, interact (ModelCall systemPrompt userPrompt) st))"

subsection \<open>Store operations\<close>

definition createSupabaseClient :: "config \<Rightarrow> runtime \<Rightarrow> js_error + unit" where
  "createSupabaseClient cfg rt = createClient rt (SUPABASE_URL cfg) (SUPABASE_SERVICE_KEY cfg)"

text \<open>
  \<^verbatim>\<open>select('id').eq('external_review_id', id).limit(1)\<close>: \<open>None\<close> is \<^verbatim>\<open>data === null\<close>.
\<close>

definition selectByExternalId :: "world \<Rightarrow> string \<Rightarrow> state \<Rightarrow> report_row list option" where
  "selectByExternalId w externalReviewId st =
     (if selectFails w (clock st) then None
      else Some (take 1 (filter (\<lambda>r. external_review_id r = Some externalReviewId)
                            (reportsTable st))))"

definition checkExistingReport :: "world \<Rightarrow> string \<Rightarrow> state \<Rightarrow> bool \<times> state" where
  "checkExistingReport w externalReviewId st =
     (let data = selectByExternalId w externalReviewId st
      in (case data of None \<Rightarrow> False | Some rows \<Rightarrow> length rows > 0,
          interact (StoreLookup externalReviewId) st))"

text \<open>The row that \<^verbatim>\<open>upsertReport\<close> hands to \<^verbatim>\<open>insert\<close>.\<close>

definition rowOf :: "processed_report \<Rightarrow> report_row" where
  "rowOf report =
     \<lparr> hotel_id = None,
       hotel_name = rp_hotel_name report,
       issue_key = rp_issue_key report,
       severity = rp_severity report,
       description = rp_description report,
       reporter_id = None,
       is_anonymous = rp_is_anonymous report,
       is_verified = True,
       report_source = System,
       system_reporter_name = rp_system_reporter_name report,
       external_review_id = Some (rp_external_review_id report),
       external_review_date = Some (rp_external_review_date report),
       created_at = rp_external_review_date report \<rparr>"

definition upsertReport :: "world \<Rightarrow> processed_report \<Rightarrow> state \<Rightarrow> bool \<times> state" where
  "upsertReport w report st =
     (let st' = interact (StoreInsert (rowOf report)) st
      in (case insertOutcome w (clock st) of
            Inserted \<Rightarrow> (True, st' \<lparr> reportsTable := reportsTable st @ [rowOf report] \<rparr>)
          | InsertError \<Rightarrow> (False, st')
          | InsertThrows \<Rightarrow> (False, st')))"

subsection \<open>Cohort selection\<close>

text \<open>\<^verbatim>\<open>from('hotels').select(...).not('google_place_id', 'is', null)\<close>\<close>

definition hotelsWithPlaceId :: "state \<Rightarrow> db_hotel list" where
  "hotelsWithPlaceId st = filter (\<lambda>h. google_place_id h \<noteq> None) (hotelsTable st)"

text \<open>\<^verbatim>\<open>Math.min(count, n)\<close> and \<^verbatim>\<open>xs.slice(0, e)\<close>; \<open>None\<close> is \<^verbatim>\<open>NaN\<close>.\<close>

definition mathMin :: "int option \<Rightarrow> nat \<Rightarrow> int option" where
  "mathMin count n = map_option (\<lambda>c. min c (int n)) count"

definition sliceTo :: "'a list \<Rightarrow> int option \<Rightarrow> 'a list" where
  "sliceTo xs e =
     (case e of
        None \<Rightarrow> []
      | Some k \<Rightarrow> if k < 0 then take (nat (int (length xs) + k)) xs else take (nat k) xs)"

text \<open>
  The Fisher-Yates loop \<^verbatim>\<open>for (i = n - 1; i > 0; i--)\<close>, with the draw of step \<open>i\<close> taken from
  the world at tick \<open>t\<close>.
\<close>

fun shuffleLoop :: "world \<Rightarrow> nat \<Rightarrow> nat \<Rightarrow> 'a list \<Rightarrow> 'a list" where
  "shuffleLoop w t 0 xs = xs"
| "shuffleLoop w t (Suc i) xs =
     (let j = nat \<lfloor>Rep_unit_interval (mathRandom w t) * real (Suc i + 1)\<rfloor>
      in shuffleLoop w (t + 1) i (xs[Suc i := xs ! j, j := xs ! Suc i]))"

definition shuffle :: "world \<Rightarrow> 'a list \<Rightarrow> state \<Rightarrow> 'a list \<times> state" where
  "shuffle w xs st =
     (shuffleLoop w (clock st) (length xs - 1) xs,
      st \<lparr> clock := clock st + (length xs - 1) \<rparr>)"

text \<open>
  \<^verbatim>\<open>.order('name', { ascending: true }).limit(MAX_HOTELS)\<close>: the rows sorted by name,
  in the byte-wise lexicographic order of strings.
\<close>

definition fetchHotelsFromDatabase :: "config \<Rightarrow> world \<Rightarrow> state \<Rightarrow> db_hotel list \<times> state" where
  "fetchHotelsFromDatabase cfg w st =
     (let st' = interact SelectHotels st
      in if selectFails w (clock st) then ([], st')
         else (take (MAX_HOTELS cfg) (sort_key h_name (hotelsWithPlaceId st)), st'))"

definition fetchRandomHotels :: "world \<Rightarrow> int option \<Rightarrow> state \<Rightarrow> db_hotel list \<times> state" where
  "fetchRandomHotels w count st =
     (let st' = interact SelectHotels st
      in if selectFails w (clock st) then ([], st')
         else
           (let data = hotelsWithPlaceId st
            in if length data = 0 then ([], st')
               else
                 (let (shuffled, st'') = shuffle w data st'
                  in (sliceTo shuffled (mathMin count (length shuffled)), st''))))"

text \<open>
  \<^verbatim>\<open>from('reports').select('hotel_id').not('hotel_id', 'is', null)\<close>, then
  \<^verbatim>\<open>.map(r => r.hotel_id).filter(Boolean)\<close>: the ids that are present and not empty.
\<close>

definition processedHotelIdsOf :: "report_row list \<Rightarrow> string list" where
  "processedHotelIdsOf rows =
     filter (\<lambda>i. i \<noteq> []) (map (\<lambda>r. the (hotel_id r)) (filter (\<lambda>r. hotel_id r \<noteq> None) rows))"

definition fetchUnprocessedHotels :: "world \<Rightarrow> int option \<Rightarrow> state \<Rightarrow> db_hotel list \<times> state" where
  "fetchUnprocessedHotels w count st =
     (let st1 = interact SelectReportHotelIds st
      in if selectFails w (clock st) then ([], st1)
         else
           (let processedHotelIds = processedHotelIdsOf (reportsTable st);
                st2 = interact SelectHotels st1
            in if selectFails w (clock st1) then ([], st2)
               else
                 (let unprocessedHotels =
                        filter (\<lambda>hotel. h_id hotel \<notin> set processedHotelIds) (hotelsWithPlaceId st)
                  in if length unprocessedHotels = 0 then ([], st2)
                     else
                       (let (shuffled, st3) = shuffle w unprocessedHotels st2
                        in (sliceTo shuffled (mathMin count (length shuffled)), st3)))))"

subsection \<open>Pipeline driver\<close>

text \<open>
  The body of the three \<^verbatim>\<open>for (const review of ...)\<close> loops (the Google fallback and the
  TripAdvisor path of \<^verbatim>\<open>ingest-hotel-data.ts\<close>, and \<^verbatim>\<open>ingest-top-hotels.ts\<close>), which differ
  only in log text.
\<close>

definition processReview ::
  "config \<Rightarrow> runtime \<Rightarrow> world \<Rightarrow> string \<Rightarrow> string \<Rightarrow> unified_review \<Rightarrow> state \<Rightarrow> state" where
  "processReview cfg rt w systemPrompt hotelName review st =
     (let st0 = st \<lparr> totalReviews := totalReviews st + 1 \<rparr>;
          (exists, st1) = checkExistingReport w (rv_id review) st0
      in if exists then st1 \<lparr> skippedReviews := skippedReviews st1 + 1 \<rparr>
         else
           (let (isAnonymous, st2) = shouldBeAnonymous cfg w st1;
                (transformed, st3) =
                  transformReviewToSafetyInsight rt w (rv_text review) hotelName systemPrompt
                    isAnonymous st2;
                report =
                  \<lparr> rp_hotel_name = hotelName,
                    rp_issue_key = issueKey transformed,
                    rp_severity = res_severity transformed,
                    rp_description = insight transformed,
                    rp_is_anonymous = isAnonymous,
                    rp_is_verified = True,
                    rp_source = System,
                    rp_system_reporter_name =
                      (if isAnonymous then None else Some (SYSTEM_REPORTER_NAME cfg)),
                    rp_external_review_id = rv_id review,
                    rp_external_review_date = publishDate review \<rparr>;
                (success, st4) = upsertReport w report st3
            in if success then st4 \<lparr> successfulReports := successfulReports st4 + 1 \<rparr>
               else st4))"

fun processReviews ::
  "config \<Rightarrow> runtime \<Rightarrow> world \<Rightarrow> string \<Rightarrow> string \<Rightarrow> unified_review list \<Rightarrow> state \<Rightarrow> state" where
  "processReviews cfg rt w systemPrompt hotelName [] st = st"
| "processReviews cfg rt w systemPrompt hotelName (review # reviews) st =
     processReviews cfg rt w systemPrompt hotelName reviews
       (processReview cfg rt w systemPrompt hotelName review st)"

text \<open>One iteration of the loop over \<^verbatim>\<open>dbHotels\<close>.\<close>

definition processHotel ::
  "config \<Rightarrow> runtime \<Rightarrow> world \<Rightarrow> string \<Rightarrow> db_hotel \<Rightarrow> state \<Rightarrow> state" where
  "processHotel cfg rt w systemPrompt hotel st =
     (if google_place_id hotel = None \<or> google_place_id hotel = Some [] then st
      else
        (let (tripAdvisorLocation, st1) = searchHotelTripAdvisor w (h_name hotel) st
         in case tripAdvisorLocation of
              None \<Rightarrow>
                (let (googleReviews, st2) =
                       fetchGoogleReviewsAll cfg w (the (google_place_id hotel)) (h_name hotel) st1
                 in if length googleReviews = 0 then st2
                    else
                      (let negativeGoogleReviews =
                             filterNegative cfg rt (dateNow w (clock st2)) googleReviews
                       in processReviews cfg rt w systemPrompt (h_name hotel)
                            negativeGoogleReviews st2))
            | Some location \<Rightarrow>
                (let (tripAdvisorReviews, st2) =
                       fetchTripAdvisorReviews cfg rt w (location_id location) st1
                 in if length tripAdvisorReviews = 0 then st2
                    else
                      (let allReviews = convertTripAdvisorToUnified tripAdvisorReviews;
                           negativeReviews = allReviews
                       in if length negativeReviews = 0 then st2
                          else processReviews cfg rt w systemPrompt (h_name hotel)
                                 negativeReviews st2))))"

fun processHotels ::
  "config \<Rightarrow> runtime \<Rightarrow> world \<Rightarrow> string \<Rightarrow> db_hotel list \<Rightarrow> state \<Rightarrow> state" where
  "processHotels cfg rt w systemPrompt [] st = st"
| "processHotels cfg rt w systemPrompt (hotel # hotels) st =
     processHotels cfg rt w systemPrompt hotels (processHotel cfg rt w systemPrompt hotel st)"

definition initialState :: "db_hotel list \<Rightarrow> report_row list \<Rightarrow> state" where
  "initialState hs rs =
     \<lparr> clock = 0, hotelsTable = hs, reportsTable = rs, trace = [],
       totalReviews = 0, skippedReviews = 0, successfulReports = 0 \<rparr>"

definition selectCohort :: "config \<Rightarrow> flags \<Rightarrow> world \<Rightarrow> state \<Rightarrow> db_hotel list \<times> state" where
  "selectCohort cfg fl w st =
     (if useUnprocessedOnly fl then fetchUnprocessedHotels w (RANDOM_SAMPLE_COUNT fl) st
      else if useRandomSampling fl then fetchRandomHotels w (RANDOM_SAMPLE_COUNT fl) st
      else fetchHotelsFromDatabase cfg w st)"

text \<open>
  \<^verbatim>\<open>runIngestion\<close> of \<^verbatim>\<open>ingest-hotel-data.ts\<close>: the exit code of the process (\<open>1\<close> for
  \<^verbatim>\<open>process.exit(1)\<close>, \<open>0\<close> when the function returns) and the final state.
  \<^verbatim>\<open>createSupabaseClient()\<close> is called outside every \<^verbatim>\<open>try\<close>: when it throws, the promise
  of \<^verbatim>\<open>runIngestion()\<close> rejects, the entry point does not handle the rejection, and Node
  (from version 15 on) ends the process with exit code \<open>1\<close>.
\<close>

definition runIngestion ::
  "(string \<Rightarrow> string option) \<Rightarrow> string list \<Rightarrow> runtime \<Rightarrow> world \<Rightarrow> db_hotel list \<Rightarrow>
     report_row list \<Rightarrow> nat \<times> state" where
  "runIngestion penv args rt w hs rs =
     (let cfg = CONFIG penv;
          fl = parseArgs cfg args;
          st = initialState hs rs
      in case validateConfig cfg of
           Inl e \<Rightarrow> (1, st)
         | Inr u \<Rightarrow>
             (case loadSystemPrompt (promptFile w) of
                Inl code \<Rightarrow> (code, st)
              | Inr systemPrompt \<Rightarrow>
                  (case createSupabaseClient cfg rt of
                     Inl e \<Rightarrow> (1, st)
                   | Inr supabase \<Rightarrow>
                       (let (dbHotels, st1) = selectCohort cfg fl w st
                        in if length dbHotels = 0 then (1, st1)
                           else (0, processHotels cfg rt w systemPrompt dbHotels st1)))))"

subsection \<open>The top-hotels script\<close>

definition TOP_HOTELS :: "(string \<times> string) list" where
  "TOP_HOTELS =
     [(''Crown Towers Melbourne'', ''229340''),
      (''Grand Hyatt Melbourne'', ''155019''),
      (''The Ritz-Carlton, Melbourne'', ''25413156''),
      (''W Melbourne'', ''19853381''),
      (''Sofitel Melbourne On Collins'', ''155025''),
      (''The Langham, Melbourne'', ''155021''),
      (''Pan Pacific Melbourne'', ''1217730''),
      (''InterContinental Melbourne'', ''1168434''),
      (''Park Hyatt Melbourne'', ''155023''),
      (''QT Melbourne'', ''10243454'')]"

text \<open>
  One iteration of its loop over \<^verbatim>\<open>TOP_HOTELS\<close>: the reviews are fetched by the known
  location id, and each is processed under the id \<^verbatim>\<open>tripadvisor_<id>\<close>, its text and its
  published date, which is \<open>processReview\<close> on the converted review.
\<close>

definition processTopHotel ::
  "config \<Rightarrow> runtime \<Rightarrow> world \<Rightarrow> string \<Rightarrow> string \<times> string \<Rightarrow> state \<Rightarrow> state" where
  "processTopHotel cfg rt w systemPrompt hotel st =
     (let (reviews, st1) = fetchTripAdvisorReviews cfg rt w (snd hotel) st
      in if length reviews = 0 then st1
         else processReviews cfg rt w systemPrompt (fst hotel)
                (convertTripAdvisorToUnified reviews) st1)"

fun processTopHotels ::
  "config \<Rightarrow> runtime \<Rightarrow> world \<Rightarrow> string \<Rightarrow> (string \<times> string) list \<Rightarrow> state \<Rightarrow> state" where
  "processTopHotels cfg rt w systemPrompt [] st = st"
| "processTopHotels cfg rt w systemPrompt (hotel # hotels) st =
     processTopHotels cfg rt w systemPrompt hotels
       (processTopHotel cfg rt w systemPrompt hotel st)"

definition runIngestion_top ::
  "(string \<Rightarrow> string option) \<Rightarrow> runtime \<Rightarrow> world \<Rightarrow> report_row list \<Rightarrow> nat \<times> state" where
  "runIngestion_top penv rt w rs =
     (let cfg = CONFIG_top penv;
          st = initialState [] rs
      in case validateConfig_top cfg of
           Inl e \<Rightarrow> (1, st)
         | Inr u \<Rightarrow>
             (case loadSystemPrompt (promptFile w) of
                Inl code \<Rightarrow> (code, st)
              | Inr systemPrompt \<Rightarrow>
                  (case createSupabaseClient cfg rt of
                     Inl e \<Rightarrow> (1, st)
                   | Inr supabase \<Rightarrow>
                       (0, processTopHotels cfg rt w systemPrompt TOP_HOTELS st))))"

subsection \<open>Statements of the specification, and example inputs\<close>


text \<open>
  The object parsed from a model reply, when the reply gets that far: the response is
  ok, its body gives a content, the content holds a brace-delimited text, and
  \<^verbatim>\<open>JSON.parse\<close> accepts it.
\<close>

definition parsedReply :: "runtime \<Rightarrow> jsval fetch_result \<Rightarrow> jsval option" where
  "parsedReply rt response =
     (case response of
        NetworkFailure \<Rightarrow> None
      | HttpReply ok body \<Rightarrow>
          if \<not> ok then None
          else (case body of
                  None \<Rightarrow> None
                | Some data \<Rightarrow>
                    (case contentOf data of
                       Inl e \<Rightarrow> None
                     | Inr content \<Rightarrow>
                         (case matchJson content of
                            None \<Rightarrow> None
                          | Some m \<Rightarrow> JSON_parse rt m))))"

text \<open>A chat-completion body whose first choice carries the given content.\<close>

definition chatBody :: "string \<Rightarrow> jsval" where
  "chatBody content =
     JObj [(''choices'', JArr [JObj [(''message'', JObj [(''content'', JStr content)])]])]"

definition example_reply :: string where
  \<open>example_reply =
     ''{"insight":"Mould in the bathroom.","issueKey":"cleaning","severity":"critical"}''\<close>

definition example_reply_numeric_key :: string where
  \<open>example_reply_numeric_key =
     ''{"insight":"Mould in the bathroom.","issueKey":5,"severity":"critical"}''\<close>

text \<open>
  A runtime for the examples: \<^verbatim>\<open>JSON.parse\<close> on the two replies above, one date
  (2024-05-20, in milliseconds since the epoch), days of 86400000 ms, and a
  \<^verbatim>\<open>createClient\<close> that throws unless the URL starts with \<^verbatim>\<open>http://\<close> or \<^verbatim>\<open>https://\<close>.
\<close>

definition example_runtime :: runtime where
  "example_runtime =
     \<lparr> JSON_parse =
         (\<lambda>s. if s = example_reply then
                 Some (JObj [(''insight'', JStr ''Mould in the bathroom.''),
                             (''issueKey'', JStr ''cleaning''),
                             (''severity'', JStr ''critical'')])
               else if s = example_reply_numeric_key then
                 Some (JObj [(''insight'', JStr ''Mould in the bathroom.''),
                             (''issueKey'', JNum 5),
                             (''severity'', JStr ''critical'')])
               else None),
       Date_parse = (\<lambda>s. if s = ''2024-05-20T00:00:00Z'' then Some 1716163200000 else None),
       Date_minusDays = (\<lambda>t n. t - n * 86400000),
       createClient =
         (\<lambda>url key. if prefix ''http://'' url \<or> prefix ''https://'' url then Inr ()
                    else Inl ClientError) \<rparr>"

text \<open>A table holds a record for an external review id.\<close>

definition recorded :: "report_row list \<Rightarrow> string \<Rightarrow> bool" where
  "recorded rows i = (\<exists>row \<in> set rows. external_review_id row = Some i)"

text \<open>
  The row that the driver builds for a review that passes the gate when the clock
  reads \<open>c\<close>: the anonymity draw is interaction \<open>c + 1\<close>, the model call \<open>c + 2\<close>.
\<close>

definition newRow ::
  "config \<Rightarrow> runtime \<Rightarrow> world \<Rightarrow> string \<Rightarrow> string \<Rightarrow> unified_review \<Rightarrow> nat \<Rightarrow> report_row" where
  "newRow cfg rt w sp hn review c =
     (let isAnonymous = (Rep_unit_interval (mathRandom w (c + 1)) < ANONYMOUS_PROBABILITY cfg);
          transformed = interpretReply rt
            (deepSeek w (c + 2) sp (userPromptOf hn (rv_text review) isAnonymous))
      in \<lparr> hotel_id = None,
           hotel_name = hn,
           issue_key = issueKey transformed,
           severity = res_severity transformed,
           description = insight transformed,
           reporter_id = None,
           is_anonymous = isAnonymous,
           is_verified = True,
           report_source = System,
           system_reporter_name = (if isAnonymous then None else Some (SYSTEM_REPORTER_NAME cfg)),
           external_review_id = Some (rv_id review),
           external_review_date = Some (publishDate review),
           created_at = publishDate review \<rparr>)"

text \<open>Anonymity and attribution of a row, for a configured reporter name.\<close>

definition attributed :: "config \<Rightarrow> report_row \<Rightarrow> bool" where
  "attributed cfg row =
     (system_reporter_name row =
        (if is_anonymous row then None else Some (SYSTEM_REPORTER_NAME cfg)))"

text \<open>Kinds of calls: those of the review loop, those that write nothing and cost no
  model call, and inserts of attributed rows.\<close>

fun reviewCall :: "call \<Rightarrow> bool" where
  "reviewCall (StoreLookup i) = True"
| "reviewCall (ModelCall s u) = True"
| "reviewCall (StoreInsert row) = True"
| "reviewCall c = False"


fun insertOK :: "config \<Rightarrow> call \<Rightarrow> bool" where
  "insertOK cfg (StoreInsert row) = attributed cfg row"
| "insertOK cfg c = True"

text \<open>
  \<open>grows cfg st st'\<close>: from \<open>st\<close> to \<open>st'\<close> the trace and the reports table only grew at
  the end, every inserted row and every new row of the table is attributed, and the
  hotels table is the same.
\<close>

definition grows :: "config \<Rightarrow> state \<Rightarrow> state \<Rightarrow> bool" where
  "grows cfg st st' =
     (\<exists>calls rows.
        trace st' = trace st @ calls \<and> list_all (insertOK cfg) calls
        \<and> reportsTable st' = reportsTable st @ rows \<and> list_all (attributed cfg) rows
        \<and> hotelsTable st' = hotelsTable st)"





text \<open>An environment variable is unset or empty.\<close>

definition unset :: "(string \<Rightarrow> string option) \<Rightarrow> string \<Rightarrow> bool" where
  "unset penv k = (penv k = None \<or> penv k = Some [])"

text \<open>
  An example deployment: every required variable is set, the store URL to an
  \<^verbatim>\<open>https\<close> address; the prompt file holds a system prompt; one hotel is known;
  TripAdvisor finds no match for it; Google returns a one-star and a five-star review
  of 2024-05-20; it is 2024-06-01; the model answers with \<open>example_reply\<close>; the random
  draw is \<open>1/2\<close>. The store's answers are parameters: which reads fail, and the outcome
  of each insert; in \<open>example_world\<close> every call succeeds.
\<close>

definition example_env :: "string \<Rightarrow> string option" where
  "example_env k =
     (if k = ''NEXT_PUBLIC_SUPABASE_URL'' then Some ''https://example.supabase.co''
      else Some ''set'')"

definition example_hotels :: "db_hotel list" where
  "example_hotels = [\<lparr> h_id = ''h1'', h_name = ''Hotel One'', google_place_id = Some ''P1'' \<rparr>]"

definition example_google_review :: google_review where
  "example_google_review =
     \<lparr> g_name = ''places/P1/reviews/R1'', g_rating = 1, g_text = Some ''Bed bugs.'',
       g_originalText = None, publishTime = ''2024-05-20T00:00:00Z'',
       g_displayName = Some ''Ann'' \<rparr>"

definition example_google_review_good :: google_review where
  "example_google_review_good =
     \<lparr> g_name = ''places/P1/reviews/R2'', g_rating = 5, g_text = Some ''Lovely stay.'',
       g_originalText = None, publishTime = ''2024-05-20T00:00:00Z'',
       g_displayName = Some ''Bob'' \<rparr>"

definition example_world_with :: "(nat \<Rightarrow> bool) \<Rightarrow> (nat \<Rightarrow> insert_outcome) \<Rightarrow> world" where
  "example_world_with sf io =
     \<lparr> mathRandom = (\<lambda>t. Abs_unit_interval (1 / 2)),
       dateNow = (\<lambda>t. 1717200000000),
       tripAdvisorSearch = (\<lambda>t n. HttpReply True (Some (Some []))),
       tripAdvisorReviews = (\<lambda>t l. NetworkFailure),
       googlePlaceDetails =
         (\<lambda>t p. HttpReply True
                  (Some (Some [example_google_review, example_google_review_good]))),
       deepSeek = (\<lambda>t s u. HttpReply True (Some (chatBody example_reply))),
       selectFails = sf,
       insertOutcome = io,
       promptFile = PromptContent ''## System Prompt ```Be brief.```'' \<rparr>"

definition example_world :: world where
  "example_world = example_world_with (\<lambda>t. False) (\<lambda>t. Inserted)"


text \<open>
  The one-star review of the example in unified form, and the row the example run
  writes.
\<close>

definition example_review :: unified_review where
  "example_review =
     \<lparr> rv_id = ''google_P1_R1'', rv_text = ''Bed bugs.'', rv_rating = 1,
       publishDate = ''2024-05-20T00:00:00Z'', rv_source = google,
       authorName = Some ''Ann'' \<rparr>"

definition example_row :: report_row where
  "example_row =
     \<lparr> hotel_id = None, hotel_name = ''Hotel One'', issue_key = ''cleaning'',
       severity = Critical, description = JStr ''Mould in the bathroom.'',
       reporter_id = None, is_anonymous = False, is_verified = True,
       report_source = System, system_reporter_name = Some ''StayLive Assistant'',
       external_review_id = Some ''google_P1_R1'',
       external_review_date = Some ''2024-05-20T00:00:00Z'',
       created_at = ''2024-05-20T00:00:00Z'' \<rparr>"

text \<open>
  Twenty-one one-star TripAdvisor reviews, numbered 1001 to 1021, in the order the
  provider lists them.
\<close>

definition example_ta_review :: "string \<Rightarrow> ta_review" where
  "example_ta_review i =
     \<lparr> ta_id = i, ta_title = ''Poor'', ta_text = ''Cold room.'', ta_rating = 1,
       published_date = ''2019-03-01'' \<rparr>"


text \<open>
  A world for \<^verbatim>\<open>ingest-top-hotels.ts\<close>: the provider lists review 1001 for the first of the
  top hotels and no review for the others. The row is the one a run writes for it.
\<close>

definition example_world_top :: world where
  "example_world_top =
     example_world \<lparr> tripAdvisorReviews :=
       \<lambda>t l. if l = ''229340'' then HttpReply True (Some (Some [example_ta_review ''1001'']))
              else HttpReply True (Some (Some [])) \<rparr>"


section \<open>Properties\<close>

subsection \<open>Auxiliary facts\<close>

lemmas string_eval =
  toLowerCase_def toLowerChar_def upperChars_def lowerChars_def trim_def isSpace_def
  VALID_ISSUE_KEYS_def

lemma contentOf_chatBody: "contentOf (chatBody c) = Inr c"
  by (cases c) (simp_all add: contentOf_def chatBody_def)

lemmas reply_eval =
  interpretReply_def tryTransform_def contentOf_chatBody matchJson_def example_runtime_def
  example_reply_def example_reply_numeric_key_def resultOfParsed_def validateIssueKey_def
  catchFallback_def parsedReply_def Let_def






lemma checkExistingReport_eq:
  "checkExistingReport w i st =
     (\<not> selectFails w (clock st) \<and> recorded (reportsTable st) i, interact (StoreLookup i) st)"
  by (auto simp: checkExistingReport_def selectByExternalId_def recorded_def Let_def
        filter_empty_conv)

lemma processReview_duplicate:
  assumes "\<not> selectFails w (clock st)" and "recorded (reportsTable st) (rv_id review)"
  shows "processReview cfg rt w sp hn review st =
           st \<lparr> clock := clock st + 1,
                trace := trace st @ [StoreLookup (rv_id review)],
                totalReviews := totalReviews st + 1,
                skippedReviews := skippedReviews st + 1 \<rparr>"
  using assms
  by (simp add: processReview_def checkExistingReport_eq interact_def Let_def)

lemma processReview_new:
  assumes "selectFails w (clock st) \<or> \<not> recorded (reportsTable st) (rv_id review)"
  shows "processReview cfg rt w sp hn review st =
           st \<lparr> clock := clock st + 4,
                trace := trace st @
                  [StoreLookup (rv_id review),
                   ModelCall sp (userPromptOf hn (rv_text review)
                     (Rep_unit_interval (mathRandom w (clock st + 1)) < ANONYMOUS_PROBABILITY cfg)),
                   StoreInsert (newRow cfg rt w sp hn review (clock st))],
                totalReviews := totalReviews st + 1,
                reportsTable :=
                  (if insertOutcome w (clock st + 3) = Inserted
                   then reportsTable st @ [newRow cfg rt w sp hn review (clock st)]
                   else reportsTable st),
                successfulReports :=
                  (if insertOutcome w (clock st + 3) = Inserted
                   then successfulReports st + 1 else successfulReports st) \<rparr>"
  using assms
  by (cases "insertOutcome w (clock st + 3)")
     (auto simp: processReview_def checkExistingReport_eq interact_def Let_def
        shouldBeAnonymous_def transformReviewToSafetyInsight_def upsertReport_def
        rowOf_def newRow_def eval_nat_numeral)

lemma newRow_attributed: "attributed cfg (newRow cfg rt w sp hn review c)"
  by (simp add: attributed_def newRow_def Let_def)

lemma grows_refl: "grows cfg st st"
  by (simp add: grows_def)

lemma grows_trans:
  assumes "grows cfg a b" and "grows cfg b c"
  shows "grows cfg a c"
proof -
  from assms(1) obtain calls rows where
    1: "trace b = trace a @ calls" "list_all (insertOK cfg) calls"
       "reportsTable b = reportsTable a @ rows" "list_all (attributed cfg) rows"
       "hotelsTable b = hotelsTable a"
    unfolding grows_def by blast
  from assms(2) obtain calls' rows' where
    2: "trace c = trace b @ calls'" "list_all (insertOK cfg) calls'"
       "reportsTable c = reportsTable b @ rows'" "list_all (attributed cfg) rows'"
       "hotelsTable c = hotelsTable b"
    unfolding grows_def by blast
  from 1 2 have "trace c = trace a @ (calls @ calls')"
    and "list_all (insertOK cfg) (calls @ calls')"
    and "reportsTable c = reportsTable a @ (rows @ rows')"
    and "list_all (attributed cfg) (rows @ rows')"
    and "hotelsTable c = hotelsTable a"
    by simp_all
  then show ?thesis
    unfolding grows_def by blast
qed

lemma grows_interact: "insertOK cfg c \<Longrightarrow> grows cfg st (interact c st)"
  by (simp add: grows_def interact_def)




lemma processReview_grows: "grows cfg st (processReview cfg rt w sp hn review st)"
proof (cases "\<not> selectFails w (clock st) \<and> recorded (reportsTable st) (rv_id review)")
  case True
  then show ?thesis
    by (simp add: processReview_duplicate grows_def)
next
  case False
  then have "selectFails w (clock st) \<or> \<not> recorded (reportsTable st) (rv_id review)"
    by blast
  then show ?thesis
    by (simp add: processReview_new grows_def newRow_attributed)
qed

lemma processReviews_grows: "grows cfg st (processReviews cfg rt w sp hn reviews st)"
proof (induction reviews arbitrary: st)
  case Nil
  show ?case by (simp add: grows_refl)
next
  case (Cons review reviews)
  show ?case
    using grows_trans [OF processReview_grows Cons.IH] by simp
qed

lemma processReviews_trace:
  "\<exists>calls. trace (processReviews cfg rt w sp hn reviews st) = trace st @ calls
     \<and> list_all reviewCall calls"
proof (induction reviews arbitrary: st)
  case Nil
  show ?case by simp
next
  case (Cons review reviews)
  let ?st1 = "processReview cfg rt w sp hn review st"
  have "\<exists>c1. trace ?st1 = trace st @ c1 \<and> list_all reviewCall c1"
  proof (cases "\<not> selectFails w (clock st) \<and> recorded (reportsTable st) (rv_id review)")
    case True
    then show ?thesis by (simp add: processReview_duplicate)
  next
    case False
    then have "selectFails w (clock st) \<or> \<not> recorded (reportsTable st) (rv_id review)"
      by blast
    then show ?thesis by (simp add: processReview_new)
  qed
  then obtain c1 where c1: "trace ?st1 = trace st @ c1" "list_all reviewCall c1"
    by blast
  from Cons.IH [of ?st1] obtain c2 where
    c2: "trace (processReviews cfg rt w sp hn reviews ?st1) = trace ?st1 @ c2"
        "list_all reviewCall c2"
    by blast
  from c1 c2 show ?case
    by (auto intro!: exI [of _ "c1 @ c2"])
qed







lemma searchHotelTripAdvisor_snd:
  "snd (searchHotelTripAdvisor w n st) = interact (TripAdvisorSearch n) st"
  by (simp add: searchHotelTripAdvisor_def Let_def)

lemma fetchGoogleReviewsAll_snd:
  "snd (fetchGoogleReviewsAll cfg w p n st) = interact (GoogleReviews p) st"
  by (simp add: fetchGoogleReviewsAll_def Let_def)

lemma fetchTripAdvisorReviews_snd:
  "snd (fetchTripAdvisorReviews cfg rt w l st) = interact (TripAdvisorReviews l) st"
  by (simp add: fetchTripAdvisorReviews_def Let_def)


lemma fetchTripAdvisorReviews_from:
  assumes "r \<in> set (fst (fetchTripAdvisorReviews cfg rt w l st))"
  shows "\<exists>rs. tripAdvisorReviews w (clock st) l = HttpReply True (Some (Some rs)) \<and> r \<in> set rs"
proof (cases "tripAdvisorReviews w (clock st) l")
  case NetworkFailure
  with assms show ?thesis
    by (simp add: fetchTripAdvisorReviews_def)
next
  case (HttpReply ok body)
  with assms have ok: "ok"
    by (auto simp: fetchTripAdvisorReviews_def Let_def split: if_splits)
  from HttpReply assms ok obtain rs where body: "body = Some (Some rs)"
    by (cases body; cases "the body") (auto simp: fetchTripAdvisorReviews_def Let_def)
  with HttpReply assms ok have "r \<in> set rs"
    by (auto simp: fetchTripAdvisorReviews_def Let_def dest: in_set_takeD)
  with HttpReply ok body show ?thesis
    by simp
qed

lemma interact_fields:
  "reportsTable (interact c st) = reportsTable st"
  "hotelsTable (interact c st) = hotelsTable st"
  "trace (interact c st) = trace st @ [c]"
  "clock (interact c st) = clock st + 1"
  "totalReviews (interact c st) = totalReviews st"
  "skippedReviews (interact c st) = skippedReviews st"
  "successfulReports (interact c st) = successfulReports st"
  by (simp_all add: interact_def)

text \<open>The three ways an iteration over a hotel ends.\<close>

lemma processHotel_cases:
  "processHotel cfg rt w sp hotel st =
     (if google_place_id hotel = None \<or> google_place_id hotel = Some [] then st
      else
        (let st1 = interact (TripAdvisorSearch (h_name hotel)) st
         in case fst (searchHotelTripAdvisor w (h_name hotel) st) of
              None \<Rightarrow>
                (let st2 = interact (GoogleReviews (the (google_place_id hotel))) st1
                 in processReviews cfg rt w sp (h_name hotel)
                      (filterNegative cfg rt (dateNow w (clock st2))
                         (fst (fetchGoogleReviewsAll cfg w (the (google_place_id hotel))
                                 (h_name hotel) st1)))
                      st2)
            | Some location \<Rightarrow>
                (let st2 = interact (TripAdvisorReviews (location_id location)) st1
                 in processReviews cfg rt w sp (h_name hotel)
                      (convertTripAdvisorToUnified
                         (fst (fetchTripAdvisorReviews cfg rt w (location_id location) st1)))
                      st2)))"
proof -
  have g: "processReviews cfg rt w sp (h_name hotel) (filterNegative cfg rt now []) s = s"
    for now s
    by (simp add: filterNegative_def)
  have t: "processReviews cfg rt w sp (h_name hotel) (convertTripAdvisorToUnified []) s = s"
    for s
    by (simp add: convertTripAdvisorToUnified_def)
  have c: "convertTripAdvisorToUnified xs = [] \<longleftrightarrow> xs = []" for xs
    by (simp add: convertTripAdvisorToUnified_def)
  show ?thesis
    using searchHotelTripAdvisor_snd [of w "h_name hotel" st]
    by (auto simp: processHotel_def Let_def split_beta g t c
          fetchGoogleReviewsAll_snd fetchTripAdvisorReviews_snd
          split: option.splits)
qed

lemma processHotel_grows: "grows cfg st (processHotel cfg rt w sp hotel st)"
  unfolding processHotel_cases
  by (auto simp: Let_def split: option.splits
        intro!: grows_refl
        intro: grows_trans [OF grows_interact grows_trans [OF grows_interact processReviews_grows]])

lemma processHotels_grows: "grows cfg st (processHotels cfg rt w sp hotels st)"
proof (induction hotels arbitrary: st)
  case Nil
  show ?case by (simp add: grows_refl)
next
  case (Cons hotel hotels)
  show ?case
    using grows_trans [OF processHotel_grows Cons.IH] by simp
qed












lemma shuffle_snd: "snd (shuffle w xs st) = st \<lparr> clock := clock st + (length xs - 1) \<rparr>"
  by (simp add: shuffle_def)

text \<open>Cohort selection only reads: it leaves both tables and the counters as they are.\<close>

lemma selectCohort_fields:
  "reportsTable (snd (selectCohort cfg fl w st)) = reportsTable st"
  "hotelsTable (snd (selectCohort cfg fl w st)) = hotelsTable st"
  "totalReviews (snd (selectCohort cfg fl w st)) = totalReviews st"
  "skippedReviews (snd (selectCohort cfg fl w st)) = skippedReviews st"
  "successfulReports (snd (selectCohort cfg fl w st)) = successfulReports st"
  by (simp_all add: selectCohort_def fetchHotelsFromDatabase_def fetchRandomHotels_def
        fetchUnprocessedHotels_def Let_def interact_def split_beta shuffle_snd)

lemma selectCohort_trace:
  "\<exists>calls. trace (snd (selectCohort cfg fl w st)) = trace st @ calls
     \<and> list_all (\<lambda>c. c = SelectHotels \<or> c = SelectReportHotelIds) calls"
proof -
  have 1: "trace (snd (fetchHotelsFromDatabase cfg w st)) = trace st @ [SelectHotels]"
    by (simp add: fetchHotelsFromDatabase_def Let_def interact_def)
  have 2: "trace (snd (fetchRandomHotels w n st)) = trace st @ [SelectHotels]" for n
    by (simp add: fetchRandomHotels_def Let_def interact_def split_beta shuffle_snd)
  have 3: "trace (snd (fetchUnprocessedHotels w n st)) =
             trace st @ (if selectFails w (clock st) then [SelectReportHotelIds]
                         else [SelectReportHotelIds, SelectHotels])" for n
    by (simp add: fetchUnprocessedHotels_def Let_def interact_def split_beta shuffle_snd)
  show ?thesis
    by (simp add: selectCohort_def 1 2 3)
qed

lemma selectCohort_grows: "grows cfg st (snd (selectCohort cfg' fl w st))"
proof -
  from selectCohort_trace [of cfg' fl w st] obtain calls where
    s: "trace (snd (selectCohort cfg' fl w st)) = trace st @ calls"
    and c: "list_all (\<lambda>c. c = SelectHotels \<or> c = SelectReportHotelIds) calls"
    by blast
  from c have "list_all (insertOK cfg) calls"
    by (induction calls) auto
  with s show ?thesis
    unfolding grows_def
    by (intro exI [of _ calls] exI [of _ "[]"]) (simp add: selectCohort_fields)
qed


lemma loadSystemPrompt_code: "loadSystemPrompt f = Inl code \<Longrightarrow> code = 1"
  by (auto simp: loadSystemPrompt_def split: prompt_file.splits option.splits)

lemma runIngestion_cases:
  "runIngestion penv args rt w hs rs =
     (case validateConfig (CONFIG penv) of
        Inl e \<Rightarrow> (1, initialState hs rs)
      | Inr u \<Rightarrow>
          (case loadSystemPrompt (promptFile w) of
             Inl code \<Rightarrow> (1, initialState hs rs)
           | Inr sp \<Rightarrow>
               (case createSupabaseClient (CONFIG penv) rt of
                  Inl e \<Rightarrow> (1, initialState hs rs)
                | Inr supabase \<Rightarrow>
                    (let c = selectCohort (CONFIG penv) (parseArgs (CONFIG penv) args) w
                               (initialState hs rs)
                     in if fst c = [] then (1, snd c)
                        else (0, processHotels (CONFIG penv) rt w sp (fst c) (snd c))))))"
  using loadSystemPrompt_code
  by (auto simp: runIngestion_def Let_def split_beta split: sum.splits)

lemma runIngestion_top_cases:
  "runIngestion_top penv rt w rs =
     (case validateConfig_top (CONFIG_top penv) of
        Inl e \<Rightarrow> (1, initialState [] rs)
      | Inr u \<Rightarrow>
          (case loadSystemPrompt (promptFile w) of
             Inl code \<Rightarrow> (1, initialState [] rs)
           | Inr sp \<Rightarrow>
               (case createSupabaseClient (CONFIG_top penv) rt of
                  Inl e \<Rightarrow> (1, initialState [] rs)
                | Inr supabase \<Rightarrow>
                    (0, processTopHotels (CONFIG_top penv) rt w sp TOP_HOTELS
                          (initialState [] rs)))))"
  using loadSystemPrompt_code
  by (auto simp: runIngestion_top_def Let_def split: sum.splits)

lemma runIngestion_grows:
  "grows (CONFIG penv) (initialState hs rs) (snd (runIngestion penv args rt w hs rs))"
  unfolding runIngestion_cases
  by (auto simp: Let_def grows_refl selectCohort_grows split: sum.splits
        intro: grows_trans [OF selectCohort_grows processHotels_grows])




lemma processTopHotels_grows: "grows cfg st (processTopHotels cfg rt w sp hotels st)"
proof (induction hotels arbitrary: st)
  case Nil
  show ?case by (simp add: grows_refl)
next
  case (Cons hotel hotels)
  have "grows cfg st (processTopHotel cfg rt w sp hotel st)"
    using fetchTripAdvisorReviews_snd [of cfg rt w "snd hotel" st]
    by (auto simp: processTopHotel_def split_beta Let_def
          intro: grows_interact grows_trans [OF grows_interact processReviews_grows])
  from grows_trans [OF this Cons.IH] show ?case
    by simp
qed

lemma runIngestion_top_grows:
  "grows (CONFIG_top penv) (initialState [] rs) (snd (runIngestion_top penv rt w rs))"
  unfolding runIngestion_top_cases
  by (auto simp: grows_refl processTopHotels_grows split: sum.splits)

lemma unit_half: "Rep_unit_interval (Abs_unit_interval (1 / 2)) = 1 / 2"
  by (simp add: Abs_unit_interval_inverse)

lemma example_world_fields:
  "mathRandom (example_world_with sf io) t = Abs_unit_interval (1 / 2)"
  "dateNow (example_world_with sf io) t = 1717200000000"
  "tripAdvisorSearch (example_world_with sf io) t n = HttpReply True (Some (Some []))"
  "googlePlaceDetails (example_world_with sf io) t p =
     HttpReply True (Some (Some [example_google_review, example_google_review_good]))"
  "deepSeek (example_world_with sf io) t s u = HttpReply True (Some (chatBody example_reply))"
  "selectFails (example_world_with sf io) = sf"
  "insertOutcome (example_world_with sf io) = io"
  "promptFile (example_world_with sf io) = PromptContent ''## System Prompt ```Be brief.```''"
  by (simp_all add: example_world_with_def)

lemma example_prompt: "loadSystemPrompt (promptFile (example_world_with sf io)) = Inr ''Be brief.''"
  by (simp add: loadSystemPrompt_def example_world_fields trim_def isSpace_def)

lemma example_config: "validateConfig (CONFIG example_env) = Inr ()"
  by (simp add: validateConfig_def CONFIG_def example_env_def envOr_def missingOf_def)

lemma example_client: "createSupabaseClient (CONFIG example_env) example_runtime = Inr ()"
  by (simp add: createSupabaseClient_def CONFIG_def example_env_def envOr_def
        example_runtime_def)

lemma example_google: "googleToUnified example_google_review = example_review"
  by (simp add: googleToUnified_def example_google_review_def example_review_def orElse_def)

lemma example_filter:
  "filterNegative (CONFIG example_env) example_runtime 1717200000000
     [example_review, googleToUnified example_google_review_good] = [example_review]"
  by (simp add: filterNegative_def isReviewWithinDateLimit_def CONFIG_def example_runtime_def
        example_review_def googleToUnified_def example_google_review_good_def Let_def)

lemma example_interpret:
  "interpretReply example_runtime (HttpReply True (Some (chatBody example_reply))) =
     \<lparr> insight = JStr ''Mould in the bathroom.'', issueKey = ''cleaning'',
       res_severity = Critical \<rparr>"
  by (simp add: reply_eval string_eval)

lemma example_newRow:
  "newRow (CONFIG example_env) example_runtime (example_world_with sf io) sp ''Hotel One''
     example_review c = example_row"
  by (simp add: newRow_def Let_def example_interpret unit_half example_row_def CONFIG_def
        example_world_fields example_review_def)

lemma example_recorded: "recorded [example_row] (rv_id example_review)"
  by (simp add: recorded_def example_row_def example_review_def)

lemma example_review_fields:
  "rv_id example_review = ''google_P1_R1''" "rv_text example_review = ''Bed bugs.''"
  by (simp_all add: example_review_def)

lemma example_hotels_nonempty: "example_hotels \<noteq> []"
  by (simp add: example_hotels_def)

text \<open>
  The hotel of the example: the search finds no match, Google is asked, and its one
  review goes to the gate.
\<close>

lemma example_processHotel:
  "processHotel (CONFIG example_env) example_runtime (example_world_with sf io) sp
     \<lparr> h_id = ''h1'', h_name = ''Hotel One'', google_place_id = Some ''P1'' \<rparr> st =
   processReview (CONFIG example_env) example_runtime (example_world_with sf io) sp
     ''Hotel One'' example_review
     (interact (GoogleReviews ''P1'') (interact (TripAdvisorSearch ''Hotel One'') st))"
proof -
  have s: "fst (searchHotelTripAdvisor (example_world_with sf io) ''Hotel One'' st) = None"
    by (simp add: searchHotelTripAdvisor_def example_world_fields)
  have g: "fst (fetchGoogleReviewsAll (CONFIG example_env) (example_world_with sf io)
                  ''P1'' ''Hotel One'' s1) =
             [example_review, googleToUnified example_google_review_good]" for s1
    by (simp add: fetchGoogleReviewsAll_def example_world_fields example_google CONFIG_def)
  show ?thesis
    by (simp add: processHotel_cases s g example_world_fields example_filter Let_def)
qed

text \<open>The example run up to the gate, when the read of the hotels table succeeds.\<close>

lemma example_run_to_gate:
  assumes "\<not> sf 0"
  shows "runIngestion example_env [] example_runtime (example_world_with sf io)
     example_hotels rs =
   (0, processReview (CONFIG example_env) example_runtime (example_world_with sf io)
         ''Be brief.'' ''Hotel One'' example_review
         \<lparr> clock = 3, hotelsTable = example_hotels, reportsTable = rs,
            trace = [SelectHotels, TripAdvisorSearch ''Hotel One'', GoogleReviews ''P1''],
            totalReviews = 0, skippedReviews = 0, successfulReports = 0 \<rparr>)"
proof -
  let ?w = "example_world_with sf io"
  have c: "selectCohort (CONFIG example_env) (parseArgs (CONFIG example_env) []) ?w
             (initialState example_hotels rs) =
           (example_hotels, interact SelectHotels (initialState example_hotels rs))"
    using assms
    by (simp add: selectCohort_def parseArgs_def fetchHotelsFromDatabase_def Let_def
          example_world_fields hotelsWithPlaceId_def initialState_def example_hotels_def
          CONFIG_def interact_def)
  have "runIngestion example_env [] example_runtime ?w example_hotels rs =
          (0, processHotels (CONFIG example_env) example_runtime ?w ''Be brief.'' example_hotels
                (interact SelectHotels (initialState example_hotels rs)))"
    unfolding runIngestion_cases
    by (simp add: example_config example_prompt example_client c example_hotels_nonempty)
  also have "processHotels (CONFIG example_env) example_runtime ?w ''Be brief.'' example_hotels
                (interact SelectHotels (initialState example_hotels rs)) =
             processHotel (CONFIG example_env) example_runtime ?w ''Be brief.''
                \<lparr> h_id = ''h1'', h_name = ''Hotel One'', google_place_id = Some ''P1'' \<rparr>
                (interact SelectHotels (initialState example_hotels rs))"
    by (simp add: example_hotels_def)
  also have "\<dots> = processReview (CONFIG example_env) example_runtime ?w ''Be brief.''
                ''Hotel One'' example_review
                (interact (GoogleReviews ''P1'') (interact (TripAdvisorSearch ''Hotel One'')
                   (interact SelectHotels (initialState example_hotels rs))))"
    by (rule example_processHotel)
  also have "interact (GoogleReviews ''P1'') (interact (TripAdvisorSearch ''Hotel One'')
                   (interact SelectHotels (initialState example_hotels rs))) =
             \<lparr> clock = 3, hotelsTable = example_hotels, reportsTable = rs,
               trace = [SelectHotels, TripAdvisorSearch ''Hotel One'', GoogleReviews ''P1''],
               totalReviews = 0, skippedReviews = 0, successfulReports = 0 \<rparr>"
    by (simp add: interact_def initialState_def)
  finally show ?thesis .
qed

text \<open>The example run on an empty reports table writes one row.\<close>

lemma example_run:
  "runIngestion example_env [] example_runtime example_world example_hotels [] =
     (0, \<lparr> clock = 7, hotelsTable = example_hotels, reportsTable = [example_row],
           trace = [SelectHotels, TripAdvisorSearch ''Hotel One'', GoogleReviews ''P1'',
                    StoreLookup ''google_P1_R1'',
                    ModelCall ''Be brief.'' (userPromptOf ''Hotel One'' ''Bed bugs.'' False),
                    StoreInsert example_row],
           totalReviews = 1, skippedReviews = 0, successfulReports = 1 \<rparr>)"
proof -
  have nr: "\<not> recorded [] i" for i
    by (simp add: recorded_def)
  have p: "ANONYMOUS_PROBABILITY (CONFIG example_env) = 3 / 10"
    by (simp add: CONFIG_def)
  show ?thesis
    unfolding example_world_def
    using example_run_to_gate [where sf = "\<lambda>t. False" and io = "\<lambda>t. Inserted" and rs = "[]"]
    by (simp add: processReview_new nr example_newRow example_world_fields unit_half p
          example_review_fields)
qed








lemma runIngestion_top_exit:
  "fst (runIngestion_top penv rt w rs) =
     (if (\<exists>e. validateConfig_top (CONFIG_top penv) = Inl e)
         \<or> (\<exists>c. loadSystemPrompt (promptFile w) = Inl c)
         \<or> (\<exists>e. createSupabaseClient (CONFIG_top penv) rt = Inl e)
      then 1 else 0)"
  unfolding runIngestion_top_cases
  by (auto split: sum.splits)

text \<open>
  The shuffle only swaps elements of its input: every draw is an index of the list, so
  the result has the elements and the length of the input.
\<close>

lemma shuffleLoop_set:
  "i < length xs \<Longrightarrow>
     set (shuffleLoop w t i xs) = set xs \<and> length (shuffleLoop w t i xs) = length xs"
proof (induction i arbitrary: t xs)
  case 0
  show ?case by simp
next
  case (Suc i)
  let ?r = "Rep_unit_interval (mathRandom w t)"
  let ?j = "nat \<lfloor>?r * real (Suc i + 1)\<rfloor>"
  have r: "0 \<le> ?r" "?r < 1"
    using Rep_unit_interval [of "mathRandom w t"] by simp_all
  then have "?r * real (Suc i + 1) < real (Suc i + 1)"
    by (simp add: mult_less_cancel_right2)
  then have "\<lfloor>?r * real (Suc i + 1)\<rfloor> < int (Suc i + 1)"
    by (simp add: floor_less_iff)
  then have j: "?j \<le> Suc i"
    by linarith
  with Suc.prems have jl: "?j < length xs"
    by simp
  let ?ys = "xs[Suc i := xs ! ?j, ?j := xs ! Suc i]"
  have "set ?ys = set xs" and "length ?ys = length xs"
    using Suc.prems jl by (simp_all add: set_swap)
  moreover have "i < length ?ys"
    using Suc.prems by simp
  ultimately show ?case
    using Suc.IH [of ?ys "t + 1"] by (simp add: Let_def)
qed

lemma shuffle_set: "set (fst (shuffle w xs st)) = set xs"
proof (cases xs)
  case Nil
  then show ?thesis by (simp add: shuffle_def)
next
  case (Cons x ys)
  then show ?thesis
    by (simp add: shuffle_def shuffleLoop_set)
qed

lemma sliceTo_subset: "set (sliceTo xs e) \<subseteq> set xs"
  by (auto simp: sliceTo_def split: option.splits dest: in_set_takeD)

text \<open>
  What \<^verbatim>\<open>fetchUnprocessedHotels\<close> does guarantee: a selected hotel is a known hotel with
  a place id whose id is not a \<^verbatim>\<open>hotel_id\<close> of the reports table. A row written by
  \<^verbatim>\<open>upsertReport\<close> has no \<^verbatim>\<open>hotel_id\<close>, so such rows exclude no hotel.
\<close>

lemma fetchUnprocessedHotels_selected:
  assumes "h \<in> set (fst (fetchUnprocessedHotels w count st))"
  shows "h \<in> set (hotelsTable st) \<and> google_place_id h \<noteq> None
           \<and> h_id h \<notin> set (processedHotelIdsOf (reportsTable st))"
proof -
  let ?u = "filter (\<lambda>hotel. h_id hotel \<notin> set (processedHotelIdsOf (reportsTable st)))
              (hotelsWithPlaceId st)"
  have "set (fst (shuffle w ?u s)) = set ?u" for s
    by (rule shuffle_set)
  with assms have "h \<in> set ?u"
    using sliceTo_subset
    by (fastforce simp: fetchUnprocessedHotels_def Let_def split_beta interact_fields
          split: if_splits)
  then show ?thesis
    by (simp add: hotelsWithPlaceId_def)
qed

lemma pipeline_rows_mark_no_hotel: "processedHotelIdsOf (map rowOf reports) = []"
  by (simp add: processedHotelIdsOf_def rowOf_def filter_empty_conv)











text \<open>When a sample of a non-empty list is empty: the count is \<^verbatim>\<open>NaN\<close>, zero, or so
  negative that \<^verbatim>\<open>slice\<close> counts back past the start.\<close>

lemma sliceTo_empty:
  assumes "xs \<noteq> []"
  shows "sliceTo xs (mathMin count (length xs)) = [] \<longleftrightarrow>
           count = None \<or> count = Some 0 \<or> (\<exists>k. count = Some k \<and> k + int (length xs) \<le> 0)"
proof (cases count)
  case None
  then show ?thesis
    by (simp add: sliceTo_def mathMin_def)
next
  case (Some c)
  from assms have n: "0 < length xs"
    by simp
  show ?thesis
  proof (cases "c < 0")
    case True
    with n have "min c (int (length xs)) = c"
      by simp
    with True Some assms show ?thesis
      by (auto simp: sliceTo_def mathMin_def)
  next
    case False
    with n have "nat (min c (int (length xs))) = 0 \<longleftrightarrow> c = 0"
      by (auto simp: min_def)
    with False Some assms n show ?thesis
      by (auto simp: sliceTo_def mathMin_def min_def)
  qed
qed

lemma shuffle_length: "length (fst (shuffle w xs st)) = length xs"
proof (cases xs)
  case Nil
  then show ?thesis by (simp add: shuffle_def)
next
  case (Cons x ys)
  then show ?thesis
    by (simp add: shuffle_def shuffleLoop_set)
qed

lemma sample_empty:
  assumes "xs \<noteq> []"
  shows "sliceTo (fst (shuffle w xs st)) (mathMin count (length (fst (shuffle w xs st)))) = []
         \<longleftrightarrow> count = None \<or> count = Some 0
             \<or> (\<exists>k. count = Some k \<and> k + int (length xs) \<le> 0)"
proof -
  from assms have "fst (shuffle w xs st) \<noteq> []"
    using shuffle_length [of w xs st] by auto
  from sliceTo_empty [OF this] show ?thesis
    by (simp add: shuffle_length)
qed

lemma fetchHotelsFromDatabase_empty:
  "fst (fetchHotelsFromDatabase (CONFIG penv) w st) = [] \<longleftrightarrow>
     selectFails w (clock st) \<or> hotelsWithPlaceId st = []"
proof -
  have "sort_key h_name xs = [] \<longleftrightarrow> xs = []" for xs :: "db_hotel list"
    by (metis length_sort list.size(3) length_0_conv)
  moreover have "MAX_HOTELS (CONFIG penv) = 300"
    by (simp add: CONFIG_def)
  ultimately show ?thesis
    by (auto simp: fetchHotelsFromDatabase_def Let_def)
qed

lemma fetchRandomHotels_empty:
  "fst (fetchRandomHotels w count st) = [] \<longleftrightarrow>
     selectFails w (clock st) \<or> hotelsWithPlaceId st = []
     \<or> count = None \<or> count = Some 0
     \<or> (\<exists>k. count = Some k \<and> k + int (length (hotelsWithPlaceId st)) \<le> 0)"
proof (cases "selectFails w (clock st) \<or> hotelsWithPlaceId st = []")
  case True
  then show ?thesis
    by (auto simp: fetchRandomHotels_def Let_def)
next
  case False
  then have "fst (fetchRandomHotels w count st) =
      sliceTo (fst (shuffle w (hotelsWithPlaceId st) (interact SelectHotels st)))
        (mathMin count (length (fst (shuffle w (hotelsWithPlaceId st)
                                       (interact SelectHotels st)))))"
    by (simp add: fetchRandomHotels_def Let_def split_beta)
  with False sample_empty [of "hotelsWithPlaceId st" w "interact SelectHotels st" count]
  show ?thesis
    by simp
qed

lemma fetchUnprocessedHotels_empty:
  "fst (fetchUnprocessedHotels w count st) = [] \<longleftrightarrow>
     selectFails w (clock st) \<or> selectFails w (clock st + 1)
     \<or> filter (\<lambda>h. h_id h \<notin> set (processedHotelIdsOf (reportsTable st)))
          (hotelsWithPlaceId st) = []
     \<or> count = None \<or> count = Some 0
     \<or> (\<exists>k. count = Some k \<and>
              k + int (length (filter (\<lambda>h. h_id h \<notin> set (processedHotelIdsOf (reportsTable st)))
                                 (hotelsWithPlaceId st))) \<le> 0)"
proof -
  let ?u = "filter (\<lambda>h. h_id h \<notin> set (processedHotelIdsOf (reportsTable st)))
              (hotelsWithPlaceId st)"
  let ?s2 = "interact SelectHotels (interact SelectReportHotelIds st)"
  show ?thesis
  proof (cases "selectFails w (clock st) \<or> selectFails w (clock st + 1) \<or> ?u = []")
    case True
    then show ?thesis
      by (auto simp: fetchUnprocessedHotels_def Let_def interact_fields)
  next
    case False
    then have "fst (fetchUnprocessedHotels w count st) =
        sliceTo (fst (shuffle w ?u ?s2)) (mathMin count (length (fst (shuffle w ?u ?s2))))"
      by (simp add: fetchUnprocessedHotels_def Let_def split_beta interact_fields)
    with False sample_empty [of ?u w ?s2 count] show ?thesis
      by simp
  qed
qed

text \<open>A required key is empty exactly when its environment variable is unset or empty.\<close>

lemma envOr_empty: "envOr penv k [] = [] \<longleftrightarrow> unset penv k"
  by (auto simp: envOr_def unset_def split: option.splits)

lemma validateConfig_fails:
  "(\<exists>e. validateConfig (CONFIG penv) = Inl e) \<longleftrightarrow>
     unset penv ''GOOGLE_MAPS_API_KEY'' \<or> unset penv ''TRIPADVISOR_API_KEY''
     \<or> unset penv ''DEEPSEEK_API_KEY'' \<or> unset penv ''NEXT_PUBLIC_SUPABASE_URL''
     \<or> unset penv ''SUPABASE_SERVICE_ROLE_KEY''"
  by (auto simp: validateConfig_def missingOf_def Let_def CONFIG_def envOr_empty)

lemma validateConfig_top_fails:
  "(\<exists>e. validateConfig_top (CONFIG_top penv) = Inl e) \<longleftrightarrow>
     unset penv ''TRIPADVISOR_API_KEY'' \<or> unset penv ''DEEPSEEK_API_KEY''
     \<or> unset penv ''NEXT_PUBLIC_SUPABASE_URL'' \<or> unset penv ''SUPABASE_SERVICE_ROLE_KEY''"
  by (auto simp: validateConfig_top_def missingOf_def Let_def CONFIG_top_def CONFIG_def
        envOr_empty)

lemma loadSystemPrompt_fails:
  "(\<exists>c. loadSystemPrompt f = Inl c) \<longleftrightarrow>
     f = PromptMissing \<or> f = PromptUnreadable
     \<or> (\<exists>content. f = PromptContent content \<and> matchSystemPrompt content = None)"
  by (auto simp: loadSystemPrompt_def split: prompt_file.splits option.splits)

lemma runIngestion_exit:
  "fst (runIngestion penv args rt w hs rs) =
     (if (\<exists>e. validateConfig (CONFIG penv) = Inl e)
         \<or> (\<exists>c. loadSystemPrompt (promptFile w) = Inl c)
         \<or> (\<exists>e. createSupabaseClient (CONFIG penv) rt = Inl e)
         \<or> fst (selectCohort (CONFIG penv) (parseArgs (CONFIG penv) args) w
                  (initialState hs rs)) = []
      then 1 else 0)"
  unfolding runIngestion_cases
  by (simp add: Let_def split: sum.splits)

subsection \<open>C1: duplicates are skipped\<close>




subsection \<open>C2: the review filter\<close>




subsection \<open>C3: transformer failures\<close>




subsection \<open>C4: severity\<close>




subsection \<open>C5: category validation\<close>

text \<open>
  C5, as claimed, fails: the claim compares without trimming, and the function trims.
  The string \<^verbatim>\<open>" wifi"\<close> is not in the enumeration under a case-insensitive comparison
  (the enumeration is lower-case, so that is: its lower-cased form is not a member), and
  \<^verbatim>\<open>validateIssueKey\<close> returns \<^verbatim>\<open>wifi\<close> for it, not \<^verbatim>\<open>other\<close>.
\<close>

theorem validateIssueKey_untrimmed_counterexample:
  "toLowerCase '' wifi'' \<notin> set VALID_ISSUE_KEYS
   \<and> validateIssueKey (JStr '' wifi'') = Inr ''wifi''
   \<and> validateIssueKey (JStr '' wifi'') \<noteq> Inr ''other''"
  by (simp add: validateIssueKey_def string_eval)

text \<open>
  C5, amended. For every string whose lower-cased and trimmed form is not in the
  enumeration the function returns \<^verbatim>\<open>other\<close>; a string whose lower-cased and trimmed form
  is in the enumeration is returned in that form; so for every string the result is a
  member of the enumeration and the function does not throw. Trimming removes white
  space of every kind at both ends, the no-break space included.
\<close>

theorem validateIssueKey_coercion:
  "(trim (toLowerCase s) \<notin> set VALID_ISSUE_KEYS \<longrightarrow> validateIssueKey (JStr s) = Inr ''other'')
   \<and> (trim (toLowerCase s) \<in> set VALID_ISSUE_KEYS \<longrightarrow>
        validateIssueKey (JStr s) = Inr (trim (toLowerCase s)))
   \<and> (\<exists>k. k \<in> set VALID_ISSUE_KEYS \<and> validateIssueKey (JStr s) = Inr k)"
  by (simp add: validateIssueKey_def Let_def VALID_ISSUE_KEYS_def)

text \<open>
  Instances: a category name with a trailing mark, and an upper-case word with an
  accented letter, are not categories; a category in mixed case between spaces, and one
  followed by a no-break space, are returned in lower case and trimmed.
\<close>

theorem validateIssueKey_coercion_witness:
  "trim (toLowerCase ''Noise!'') \<notin> set VALID_ISSUE_KEYS
   \<and> validateIssueKey (JStr ''Noise!'') = Inr ''other''
   \<and> toLowerCase (''CAF'' @ [CHR 0xC9]) = ''caf'' @ [CHR 0xE9]
   \<and> trim (toLowerCase (''CAF'' @ [CHR 0xC9])) \<notin> set VALID_ISSUE_KEYS
   \<and> validateIssueKey (JStr (''CAF'' @ [CHR 0xC9])) = Inr ''other''
   \<and> trim (toLowerCase '' WiFi '') \<in> set VALID_ISSUE_KEYS
   \<and> validateIssueKey (JStr '' WiFi '') = Inr ''wifi''
   \<and> trim (toLowerCase (''wifi'' @ [CHR 0xA0])) \<in> set VALID_ISSUE_KEYS
   \<and> validateIssueKey (JStr (''wifi'' @ [CHR 0xA0])) = Inr ''wifi''"
  using validateIssueKey_coercion [of "''Noise!''"] validateIssueKey_coercion [of "'' WiFi ''"]
    validateIssueKey_coercion [of "''CAF'' @ [CHR 0xC9]"]
    validateIssueKey_coercion [of "''wifi'' @ [CHR 0xA0]"]
  by (simp add: string_eval)

subsection \<open>C6: anonymity and attribution\<close>

text \<open>
  C6. Every row that a run of either script hands to the store's insert, and so every
  row that the run adds to the reports table, is anonymous iff it carries no reporter
  name, and a row that is not anonymous carries the configured reporter name,
  \<^verbatim>\<open>StayLive Assistant\<close>.
\<close>

theorem anonymity_attribution_exclusive:
  "(StoreInsert row \<in> set (trace (snd (runIngestion penv args rt w hs rs)))
      \<or> StoreInsert row \<in> set (trace (snd (runIngestion_top penv rt w rs))) \<longrightarrow>
        (is_anonymous row \<longleftrightarrow> system_reporter_name row = None)
        \<and> (\<not> is_anonymous row \<longrightarrow> system_reporter_name row = Some ''StayLive Assistant''))
   \<and> (\<exists>rows. reportsTable (snd (runIngestion penv args rt w hs rs)) = rs @ rows
        \<and> (\<forall>r \<in> set rows.
              (is_anonymous r \<longleftrightarrow> system_reporter_name r = None)
              \<and> (\<not> is_anonymous r \<longrightarrow> system_reporter_name r = Some ''StayLive Assistant'')))
   \<and> (\<exists>rows. reportsTable (snd (runIngestion_top penv rt w rs)) = rs @ rows
        \<and> (\<forall>r \<in> set rows.
              (is_anonymous r \<longleftrightarrow> system_reporter_name r = None)
              \<and> (\<not> is_anonymous r \<longrightarrow> system_reporter_name r = Some ''StayLive Assistant'')))"
proof -
  have name: "SYSTEM_REPORTER_NAME (CONFIG penv) = ''StayLive Assistant''"
    "SYSTEM_REPORTER_NAME (CONFIG_top penv) = ''StayLive Assistant''"
    by (simp_all add: CONFIG_def CONFIG_top_def)
  have excl: "(is_anonymous r \<longleftrightarrow> system_reporter_name r = None)
        \<and> (\<not> is_anonymous r \<longrightarrow> system_reporter_name r = Some ''StayLive Assistant'')"
    if "attributed (CONFIG penv) r \<or> attributed (CONFIG_top penv) r" for r
    using that by (auto simp: attributed_def name split: if_splits)
  from runIngestion_grows [of penv hs rs args rt w] obtain calls rows where
    1: "trace (snd (runIngestion penv args rt w hs rs)) = calls"
       "list_all (insertOK (CONFIG penv)) calls"
       "reportsTable (snd (runIngestion penv args rt w hs rs)) = rs @ rows"
       "list_all (attributed (CONFIG penv)) rows"
    by (auto simp: grows_def initialState_def)
  from runIngestion_top_grows [of penv rs rt w] obtain calls' rows' where
    2: "trace (snd (runIngestion_top penv rt w rs)) = calls'"
       "list_all (insertOK (CONFIG_top penv)) calls'"
       "reportsTable (snd (runIngestion_top penv rt w rs)) = rs @ rows'"
       "list_all (attributed (CONFIG_top penv)) rows'"
    by (auto simp: grows_def initialState_def)
  have a: "attributed (CONFIG penv) row \<or> attributed (CONFIG_top penv) row"
    if "StoreInsert row \<in> set (trace (snd (runIngestion penv args rt w hs rs)))
      \<or> StoreInsert row \<in> set (trace (snd (runIngestion_top penv rt w rs)))"
  proof -
    from that 1(1) 2(1) consider "StoreInsert row \<in> set calls" | "StoreInsert row \<in> set calls'"
      by auto
    then show ?thesis
    proof cases
      case 1
      with \<open>list_all (insertOK (CONFIG penv)) calls\<close>
      have "insertOK (CONFIG penv) (StoreInsert row)"
        unfolding list_all_iff by blast
      then show ?thesis by simp
    next
      case 2
      with \<open>list_all (insertOK (CONFIG_top penv)) calls'\<close>
      have "insertOK (CONFIG_top penv) (StoreInsert row)"
        unfolding list_all_iff by blast
      then show ?thesis by simp
    qed
  qed
  show ?thesis
  proof (intro conjI impI)
    assume h: "StoreInsert row \<in> set (trace (snd (runIngestion penv args rt w hs rs)))
      \<or> StoreInsert row \<in> set (trace (snd (runIngestion_top penv rt w rs)))"
    from excl [OF a [OF h]]
    show "is_anonymous row \<longleftrightarrow> system_reporter_name row = None"
      by blast
    from excl [OF a [OF h]]
    show "system_reporter_name row = Some ''StayLive Assistant''" if "\<not> is_anonymous row"
      using that by blast
  next
    from 1(3,4) excl
    show "\<exists>rows. reportsTable (snd (runIngestion penv args rt w hs rs)) = rs @ rows
        \<and> (\<forall>r \<in> set rows.
              (is_anonymous r \<longleftrightarrow> system_reporter_name r = None)
              \<and> (\<not> is_anonymous r \<longrightarrow> system_reporter_name r = Some ''StayLive Assistant''))"
      by (intro exI [of _ rows]) (simp add: list_all_iff)
  next
    from 2(3,4) excl
    show "\<exists>rows. reportsTable (snd (runIngestion_top penv rt w rs)) = rs @ rows
        \<and> (\<forall>r \<in> set rows.
              (is_anonymous r \<longleftrightarrow> system_reporter_name r = None)
              \<and> (\<not> is_anonymous r \<longrightarrow> system_reporter_name r = Some ''StayLive Assistant''))"
      by (intro exI [of _ rows']) (simp add: list_all_iff)
  qed
qed

text \<open>
  An instance: the example run inserts the example row, which is not anonymous and
  carries the reporter name.
\<close>

theorem anonymity_attribution_exclusive_witness:
  "StoreInsert example_row \<in> set (trace (snd (runIngestion example_env [] example_runtime
       example_world example_hotels [])))
   \<and> reportsTable (snd (runIngestion example_env [] example_runtime
       example_world example_hotels [])) = [example_row]
   \<and> \<not> is_anonymous example_row
   \<and> system_reporter_name example_row = Some ''StayLive Assistant''"
proof -
  have 1: "StoreInsert example_row \<in> set (trace (snd (runIngestion example_env [] example_runtime
       example_world example_hotels [])))"
    by (simp add: example_run)
  with anonymity_attribution_exclusive [of example_row example_env "[]" example_runtime
      example_world example_hotels "[]"]
  have "is_anonymous example_row \<longleftrightarrow> system_reporter_name example_row = None"
    and "\<not> is_anonymous example_row \<longrightarrow>
           system_reporter_name example_row = Some ''StayLive Assistant''"
    by blast+
  moreover have "\<not> is_anonymous example_row"
    by (simp add: example_row_def)
  ultimately show ?thesis
    using 1 by (simp add: example_run)
qed

subsection \<open>C7: fallback to the secondary provider, per venue\<close>

text \<open>
  C7. For a venue with a place id, whatever the state the earlier venues left: the name
  search gives no location exactly when the request fails, the response is not ok, its
  body does not parse, or it lists no location; in that case the driver's next call is
  the Google reviews request for the place id of this same venue, followed by calls of
  the review loop only. When the search gives a location the driver's next call is the
  TripAdvisor reviews request for that location, followed by calls of the review loop
  only, so Google is not asked for this venue, whatever happened at any other venue.
\<close>

theorem fallback_per_venue:
  "google_place_id hotel = Some p \<and> p \<noteq> [] \<longrightarrow>
     (fst (searchHotelTripAdvisor w (h_name hotel) st) = None \<longleftrightarrow>
        (\<nexists>l ls. tripAdvisorSearch w (clock st) (h_name hotel) =
                   HttpReply True (Some (Some (l # ls)))))
     \<and> (fst (searchHotelTripAdvisor w (h_name hotel) st) = None \<longrightarrow>
          (\<exists>calls. trace (processHotel cfg rt w sp hotel st) =
                     trace st @ [TripAdvisorSearch (h_name hotel), GoogleReviews p] @ calls
                   \<and> list_all reviewCall calls))
     \<and> (\<forall>l. fst (searchHotelTripAdvisor w (h_name hotel) st) = Some l \<longrightarrow>
          (\<exists>calls. trace (processHotel cfg rt w sp hotel st) =
                     trace st @ [TripAdvisorSearch (h_name hotel),
                                 TripAdvisorReviews (location_id l)] @ calls
                   \<and> list_all reviewCall calls))"
proof (intro impI conjI allI)
  show "fst (searchHotelTripAdvisor w (h_name hotel) st) = None \<longleftrightarrow>
        (\<nexists>l ls. tripAdvisorSearch w (clock st) (h_name hotel) =
                   HttpReply True (Some (Some (l # ls))))"
    by (auto simp: searchHotelTripAdvisor_def Let_def
          split: fetch_result.splits option.splits list.splits)
next
  assume h: "google_place_id hotel = Some p \<and> p \<noteq> []"
    and s: "fst (searchHotelTripAdvisor w (h_name hotel) st) = None"
  let ?s2 = "interact (GoogleReviews p) (interact (TripAdvisorSearch (h_name hotel)) st)"
  let ?rs = "filterNegative cfg rt (dateNow w (clock ?s2))
               (fst (fetchGoogleReviewsAll cfg w p (h_name hotel)
                       (interact (TripAdvisorSearch (h_name hotel)) st)))"
  from h s have "processHotel cfg rt w sp hotel st =
                   processReviews cfg rt w sp (h_name hotel) ?rs ?s2"
    by (simp add: processHotel_cases Let_def)
  moreover from processReviews_trace [of cfg rt w sp "h_name hotel" ?rs ?s2]
  obtain calls where "trace (processReviews cfg rt w sp (h_name hotel) ?rs ?s2) =
                        trace ?s2 @ calls" "list_all reviewCall calls"
    by blast
  ultimately show "\<exists>calls. trace (processHotel cfg rt w sp hotel st) =
                     trace st @ [TripAdvisorSearch (h_name hotel), GoogleReviews p] @ calls
                   \<and> list_all reviewCall calls"
    by (auto simp: interact_fields)
next
  fix l
  assume h: "google_place_id hotel = Some p \<and> p \<noteq> []"
    and s: "fst (searchHotelTripAdvisor w (h_name hotel) st) = Some l"
  let ?s2 = "interact (TripAdvisorReviews (location_id l))
               (interact (TripAdvisorSearch (h_name hotel)) st)"
  let ?rs = "convertTripAdvisorToUnified
               (fst (fetchTripAdvisorReviews cfg rt w (location_id l)
                       (interact (TripAdvisorSearch (h_name hotel)) st)))"
  from h s have "processHotel cfg rt w sp hotel st =
                   processReviews cfg rt w sp (h_name hotel) ?rs ?s2"
    by (simp add: processHotel_cases Let_def)
  moreover from processReviews_trace [of cfg rt w sp "h_name hotel" ?rs ?s2]
  obtain calls where "trace (processReviews cfg rt w sp (h_name hotel) ?rs ?s2) =
                        trace ?s2 @ calls" "list_all reviewCall calls"
    by blast
  ultimately show "\<exists>calls. trace (processHotel cfg rt w sp hotel st) =
                     trace st @ [TripAdvisorSearch (h_name hotel),
                                 TripAdvisorReviews (location_id l)] @ calls
                   \<and> list_all reviewCall calls"
    by (auto simp: interact_fields)
qed

text \<open>
  Instances: in the example the search for Hotel One lists no location, and the next
  call is the Google request for its place id \<^verbatim>\<open>P1\<close>; when the search lists the
  location \<^verbatim>\<open>L1\<close>, the next call is the TripAdvisor request for \<^verbatim>\<open>L1\<close>, and Google is
  not asked.
\<close>

theorem fallback_per_venue_witness:
  "google_place_id \<lparr> h_id = ''h1'', h_name = ''Hotel One'', google_place_id = Some ''P1'' \<rparr>
     = Some ''P1''
   \<and> ''P1'' \<noteq> []
   \<and> fst (searchHotelTripAdvisor example_world ''Hotel One'' (initialState example_hotels []))
       = None
   \<and> trace (processHotel (CONFIG example_env) example_runtime example_world ''Be brief.''
        \<lparr> h_id = ''h1'', h_name = ''Hotel One'', google_place_id = Some ''P1'' \<rparr>
        (initialState example_hotels [])) =
       [TripAdvisorSearch ''Hotel One'', GoogleReviews ''P1'', StoreLookup ''google_P1_R1'',
        ModelCall ''Be brief.'' (userPromptOf ''Hotel One'' ''Bed bugs.'' False),
        StoreInsert example_row]
   \<and> fst (searchHotelTripAdvisor
        (example_world \<lparr> tripAdvisorSearch := \<lambda>t n. HttpReply True
           (Some (Some [\<lparr> location_id = ''L1'', loc_name = ''Hotel One'' \<rparr>])) \<rparr>)
        ''Hotel One'' (initialState example_hotels [])) =
       Some \<lparr> location_id = ''L1'', loc_name = ''Hotel One'' \<rparr>
   \<and> trace (processHotel (CONFIG example_env) example_runtime
        (example_world \<lparr> tripAdvisorSearch := \<lambda>t n. HttpReply True
           (Some (Some [\<lparr> location_id = ''L1'', loc_name = ''Hotel One'' \<rparr>])) \<rparr>)
        ''Be brief.''
        \<lparr> h_id = ''h1'', h_name = ''Hotel One'', google_place_id = Some ''P1'' \<rparr>
        (initialState example_hotels [])) =
       [TripAdvisorSearch ''Hotel One'', TripAdvisorReviews ''L1'']"
proof -
  let ?h = "\<lparr> h_id = ''h1'', h_name = ''Hotel One'', google_place_id = Some ''P1'' \<rparr>"
  let ?l = "\<lparr> location_id = ''L1'', loc_name = ''Hotel One'' \<rparr>"
  let ?w = "example_world \<lparr> tripAdvisorSearch := \<lambda>t n. HttpReply True (Some (Some [?l])) \<rparr>"
  have s': "fst (searchHotelTripAdvisor ?w ''Hotel One'' s0) = Some ?l" for s0
    by (simp add: searchHotelTripAdvisor_def)
  have f': "fst (fetchTripAdvisorReviews (CONFIG example_env) example_runtime ?w ''L1'' s1) = []"
    for s1
    by (simp add: fetchTripAdvisorReviews_def example_world_def example_world_with_def)
  have t': "trace (processHotel (CONFIG example_env) example_runtime ?w ''Be brief.'' ?h
              (initialState example_hotels [])) =
            [TripAdvisorSearch ''Hotel One'', TripAdvisorReviews ''L1'']"
    by (simp add: processHotel_cases s' f' Let_def convertTripAdvisorToUnified_def
          interact_def initialState_def)
  from fallback_per_venue [of ?h "''P1''" ?w "initialState example_hotels []"
      "CONFIG example_env" example_runtime "''Be brief.''"] s'
  have e': "\<exists>calls. trace (processHotel (CONFIG example_env) example_runtime ?w ''Be brief.'' ?h
              (initialState example_hotels [])) =
            trace (initialState example_hotels []) @
              [TripAdvisorSearch ''Hotel One'', TripAdvisorReviews ''L1''] @ calls
            \<and> list_all reviewCall calls"
    by simp
  have s: "fst (searchHotelTripAdvisor example_world ''Hotel One''
                  (initialState example_hotels [])) = None"
    by (simp add: searchHotelTripAdvisor_def example_world_def example_world_fields)
  have nr: "\<not> recorded [] i" for i
    by (simp add: recorded_def)
  have p: "ANONYMOUS_PROBABILITY (CONFIG example_env) = 3 / 10"
    by (simp add: CONFIG_def)
  have t: "trace (processHotel (CONFIG example_env) example_runtime example_world ''Be brief.''
        \<lparr> h_id = ''h1'', h_name = ''Hotel One'', google_place_id = Some ''P1'' \<rparr>
        (initialState example_hotels [])) =
       [TripAdvisorSearch ''Hotel One'', GoogleReviews ''P1'', StoreLookup ''google_P1_R1'',
        ModelCall ''Be brief.'' (userPromptOf ''Hotel One'' ''Bed bugs.'' False),
        StoreInsert example_row]"
    unfolding example_world_def
    by (simp add: example_processHotel processReview_new interact_def initialState_def nr
          example_newRow example_world_fields unit_half p example_review_fields)
  from fallback_per_venue [of "\<lparr> h_id = ''h1'', h_name = ''Hotel One'',
        google_place_id = Some ''P1'' \<rparr>" "''P1''" example_world
        "initialState example_hotels []" "CONFIG example_env" example_runtime "''Be brief.''"] s
  have "\<exists>calls. trace (processHotel (CONFIG example_env) example_runtime example_world
        ''Be brief.'' \<lparr> h_id = ''h1'', h_name = ''Hotel One'', google_place_id = Some ''P1'' \<rparr>
        (initialState example_hotels [])) =
          trace (initialState example_hotels []) @
            [TripAdvisorSearch ''Hotel One'', GoogleReviews ''P1''] @ calls
          \<and> list_all reviewCall calls"
    by simp
  with s t s' t' e' show ?thesis
    by simp
qed

subsection \<open>C8: the unprocessed cohort\<close>

text \<open>
  C8 does not hold of the code. \<^verbatim>\<open>fetchUnprocessedHotels\<close> subtracts the hotels whose id
  occurs in the \<^verbatim>\<open>hotel_id\<close> column of the reports table, and the pipeline's insert
  writes the hotel's name and no \<^verbatim>\<open>hotel_id\<close>. After the example run has written a
  record for Hotel One, a run in \<^verbatim>\<open>--unprocessed\<close> mode selects Hotel One again.
\<close>

theorem unprocessed_mode_reselects:
  "map hotel_name (reportsTable (snd (runIngestion example_env [] example_runtime
       example_world example_hotels []))) = [''Hotel One'']
   \<and> map h_name example_hotels = [''Hotel One'']
   \<and> useUnprocessedOnly (parseArgs (CONFIG example_env) [''--unprocessed''])
   \<and> fst (selectCohort (CONFIG example_env)
        (parseArgs (CONFIG example_env) [''--unprocessed'']) example_world
        (initialState example_hotels
           (reportsTable (snd (runIngestion example_env [] example_runtime
              example_world example_hotels []))))) = example_hotels"
proof -
  have f: "parseArgs (CONFIG example_env) [''--unprocessed''] =
             \<lparr> useRandomSampling = False, useUnprocessedOnly = True,
               RANDOM_SAMPLE_COUNT = Some 20 \<rparr>"
    by (simp add: parseArgs_def CONFIG_def)
  have s: "fst (shuffle w [h] st) = [h]" for w st and h :: db_hotel
    by (simp add: shuffle_def)
  have "fst (fetchUnprocessedHotels example_world (Some 20)
               (initialState example_hotels [example_row])) = example_hotels"
    by (simp add: fetchUnprocessedHotels_def Let_def example_world_def example_world_fields
          interact_def initialState_def processedHotelIdsOf_def example_row_def
          hotelsWithPlaceId_def example_hotels_def split_beta s sliceTo_def mathMin_def)
  moreover have "reportsTable (snd (runIngestion example_env [] example_runtime
       example_world example_hotels [])) = [example_row]"
    by (simp add: example_run)
  moreover have "map hotel_name [example_row] = [''Hotel One'']"
    by (simp add: example_row_def)
  moreover have "map h_name example_hotels = [''Hotel One'']"
    by (simp add: example_hotels_def)
  ultimately show ?thesis
    by (simp add: f selectCohort_def)
qed

subsection \<open>C9: abnormal termination\<close>

text \<open>
  C9, as claimed, fails: with every required variable set, a prompt file that parses and
  a store client that is constructed, a run whose read of the hotels table errors
  selects no hotel, and the driver calls \<^verbatim>\<open>process.exit(1)\<close>. The failure is a store
  failure after configuration validation, and it is fatal.
\<close>

theorem exit_on_empty_cohort_counterexample:
  "validateConfig (CONFIG example_env) = Inr ()
   \<and> loadSystemPrompt (promptFile (example_world_with (\<lambda>t. True) (\<lambda>t. Inserted))) =
       Inr ''Be brief.''
   \<and> createSupabaseClient (CONFIG example_env) example_runtime = Inr ()
   \<and> fst (runIngestion example_env [] example_runtime
        (example_world_with (\<lambda>t. True) (\<lambda>t. Inserted)) example_hotels []) = 1"
proof -
  have "fst (selectCohort (CONFIG example_env) (parseArgs (CONFIG example_env) [])
          (example_world_with (\<lambda>t. True) (\<lambda>t. Inserted)) (initialState example_hotels [])) = []"
    by (simp add: selectCohort_def parseArgs_def fetchHotelsFromDatabase_def Let_def
          example_world_fields)
  then show ?thesis
    unfolding runIngestion_cases
    by (simp add: example_config example_prompt example_client)
qed

text \<open>
  C9, amended. \<^verbatim>\<open>ingest-hotel-data.ts\<close> exits with code 1 exactly when a required
  variable is unset or empty, the prompt file is missing, unreadable or without a system
  prompt section, the store library refuses to construct a client from the configured
  URL and key, or the selected cohort is empty; all four are decided before the first
  venue is processed. The cohort is empty exactly when a read of cohort selection
  errors, no hotel qualifies (none with a place id; in the unprocessed mode, none whose
  id is not a \<^verbatim>\<open>hotel_id\<close> of the reports table), or, in the sampling modes, the sample size
  is not a number, is zero, or is negative and reaches back past the number of
  qualifying hotels. In every other case the run completes with exit code 0: no failure
  of a search, a fetch, a model call, a lookup or an insert is fatal.
  \<^verbatim>\<open>ingest-top-hotels.ts\<close> selects no cohort and exits with code 1 exactly in the first
  three cases, for its own list of required variables.
\<close>

theorem exit_code_cases:
  "fst (runIngestion penv args rt w hs rs) =
     (if (\<exists>e. validateConfig (CONFIG penv) = Inl e)
         \<or> (\<exists>c. loadSystemPrompt (promptFile w) = Inl c)
         \<or> (\<exists>e. createSupabaseClient (CONFIG penv) rt = Inl e)
         \<or> fst (selectCohort (CONFIG penv) (parseArgs (CONFIG penv) args) w
                  (initialState hs rs)) = []
      then 1 else 0)
   \<and> fst (runIngestion_top penv rt w rs) =
       (if (\<exists>e. validateConfig_top (CONFIG_top penv) = Inl e)
           \<or> (\<exists>c. loadSystemPrompt (promptFile w) = Inl c)
           \<or> (\<exists>e. createSupabaseClient (CONFIG_top penv) rt = Inl e)
        then 1 else 0)
   \<and> ((\<exists>e. validateConfig (CONFIG penv) = Inl e) \<longleftrightarrow>
        unset penv ''GOOGLE_MAPS_API_KEY'' \<or> unset penv ''TRIPADVISOR_API_KEY''
        \<or> unset penv ''DEEPSEEK_API_KEY'' \<or> unset penv ''NEXT_PUBLIC_SUPABASE_URL''
        \<or> unset penv ''SUPABASE_SERVICE_ROLE_KEY'')
   \<and> ((\<exists>e. validateConfig_top (CONFIG_top penv) = Inl e) \<longleftrightarrow>
        unset penv ''TRIPADVISOR_API_KEY'' \<or> unset penv ''DEEPSEEK_API_KEY''
        \<or> unset penv ''NEXT_PUBLIC_SUPABASE_URL'' \<or> unset penv ''SUPABASE_SERVICE_ROLE_KEY'')
   \<and> ((\<exists>c. loadSystemPrompt (promptFile w) = Inl c) \<longleftrightarrow>
        promptFile w = PromptMissing \<or> promptFile w = PromptUnreadable
        \<or> (\<exists>content. promptFile w = PromptContent content
              \<and> matchSystemPrompt content = None))
   \<and> createSupabaseClient (CONFIG penv) rt =
       createClient rt (envOr penv ''NEXT_PUBLIC_SUPABASE_URL'' [])
         (envOr penv ''SUPABASE_SERVICE_ROLE_KEY'' [])
   \<and> createSupabaseClient (CONFIG_top penv) rt = createSupabaseClient (CONFIG penv) rt
   \<and> (\<not> useUnprocessedOnly (parseArgs (CONFIG penv) args)
        \<and> \<not> useRandomSampling (parseArgs (CONFIG penv) args) \<longrightarrow>
        (fst (selectCohort (CONFIG penv) (parseArgs (CONFIG penv) args) w
                (initialState hs rs)) = []
         \<longleftrightarrow> selectFails w 0 \<or> filter (\<lambda>h. google_place_id h \<noteq> None) hs = []))
   \<and> (\<not> useUnprocessedOnly (parseArgs (CONFIG penv) args)
        \<and> useRandomSampling (parseArgs (CONFIG penv) args) \<longrightarrow>
        (fst (selectCohort (CONFIG penv) (parseArgs (CONFIG penv) args) w
                (initialState hs rs)) = []
         \<longleftrightarrow> selectFails w 0 \<or> filter (\<lambda>h. google_place_id h \<noteq> None) hs = []
             \<or> RANDOM_SAMPLE_COUNT (parseArgs (CONFIG penv) args) = None
             \<or> RANDOM_SAMPLE_COUNT (parseArgs (CONFIG penv) args) = Some 0
             \<or> (\<exists>k. RANDOM_SAMPLE_COUNT (parseArgs (CONFIG penv) args) = Some k
                    \<and> k + int (length (filter (\<lambda>h. google_place_id h \<noteq> None) hs)) \<le> 0)))
   \<and> (useUnprocessedOnly (parseArgs (CONFIG penv) args) \<longrightarrow>
        (fst (selectCohort (CONFIG penv) (parseArgs (CONFIG penv) args) w
                (initialState hs rs)) = []
         \<longleftrightarrow> selectFails w 0 \<or> selectFails w 1
             \<or> filter (\<lambda>h. h_id h \<notin> set (processedHotelIdsOf rs))
                  (filter (\<lambda>h. google_place_id h \<noteq> None) hs) = []
             \<or> RANDOM_SAMPLE_COUNT (parseArgs (CONFIG penv) args) = None
             \<or> RANDOM_SAMPLE_COUNT (parseArgs (CONFIG penv) args) = Some 0
             \<or> (\<exists>k. RANDOM_SAMPLE_COUNT (parseArgs (CONFIG penv) args) = Some k
                    \<and> k + int (length (filter (\<lambda>h. h_id h \<notin> set (processedHotelIdsOf rs))
                                           (filter (\<lambda>h. google_place_id h \<noteq> None) hs)))
                        \<le> 0)))"
proof -
  let ?fl = "parseArgs (CONFIG penv) args"
  let ?s0 = "initialState hs rs"
  have s0: "clock ?s0 = 0" "reportsTable ?s0 = rs"
    "hotelsWithPlaceId ?s0 = filter (\<lambda>h. google_place_id h \<noteq> None) hs"
    by (simp_all add: initialState_def hotelsWithPlaceId_def)
  have 1: "createSupabaseClient (CONFIG penv) rt =
       createClient rt (envOr penv ''NEXT_PUBLIC_SUPABASE_URL'' [])
         (envOr penv ''SUPABASE_SERVICE_ROLE_KEY'' [])"
    by (simp add: createSupabaseClient_def CONFIG_def)
  have 2: "createSupabaseClient (CONFIG_top penv) rt = createSupabaseClient (CONFIG penv) rt"
    by (simp add: createSupabaseClient_def CONFIG_top_def)
  have 3: "fst (selectCohort (CONFIG penv) ?fl w ?s0) = []
         \<longleftrightarrow> selectFails w 0 \<or> filter (\<lambda>h. google_place_id h \<noteq> None) hs = []"
    if "\<not> useUnprocessedOnly ?fl \<and> \<not> useRandomSampling ?fl"
    using that fetchHotelsFromDatabase_empty [of penv w ?s0]
    by (simp add: selectCohort_def s0)
  have 4: "fst (selectCohort (CONFIG penv) ?fl w ?s0) = []
         \<longleftrightarrow> selectFails w 0 \<or> filter (\<lambda>h. google_place_id h \<noteq> None) hs = []
             \<or> RANDOM_SAMPLE_COUNT ?fl = None \<or> RANDOM_SAMPLE_COUNT ?fl = Some 0
             \<or> (\<exists>k. RANDOM_SAMPLE_COUNT ?fl = Some k
                    \<and> k + int (length (filter (\<lambda>h. google_place_id h \<noteq> None) hs)) \<le> 0)"
    if "\<not> useUnprocessedOnly ?fl \<and> useRandomSampling ?fl"
    using that fetchRandomHotels_empty [of w "RANDOM_SAMPLE_COUNT ?fl" ?s0]
    by (simp add: selectCohort_def s0)
  have 5: "fst (selectCohort (CONFIG penv) ?fl w ?s0) = []
         \<longleftrightarrow> selectFails w 0 \<or> selectFails w 1
             \<or> filter (\<lambda>h. h_id h \<notin> set (processedHotelIdsOf rs))
                  (filter (\<lambda>h. google_place_id h \<noteq> None) hs) = []
             \<or> RANDOM_SAMPLE_COUNT ?fl = None \<or> RANDOM_SAMPLE_COUNT ?fl = Some 0
             \<or> (\<exists>k. RANDOM_SAMPLE_COUNT ?fl = Some k
                    \<and> k + int (length (filter (\<lambda>h. h_id h \<notin> set (processedHotelIdsOf rs))
                                           (filter (\<lambda>h. google_place_id h \<noteq> None) hs)))
                        \<le> 0)"
    if "useUnprocessedOnly ?fl"
    using that fetchUnprocessedHotels_empty [of w "RANDOM_SAMPLE_COUNT ?fl" ?s0]
    by (simp add: selectCohort_def s0)
  from runIngestion_exit [of penv args rt w hs rs] runIngestion_top_exit [of penv rt w rs]
    validateConfig_fails [of penv] validateConfig_top_fails [of penv]
    loadSystemPrompt_fails [of "promptFile w"] 1 2 3 4 5
  show ?thesis
    by blast
qed

text \<open>
  Instances. In the default mode, with the search, the lookup, the model call and the
  insert all failing for the one hotel and its one review, the run exits with 0. With
  \<^verbatim>\<open>--random=0\<close> the sample is empty, and with \<^verbatim>\<open>--unprocessed\<close> and a failing read of
  the hotels table no hotel is selected: the run exits with 1. With a store URL that
  the library does not accept both scripts exit with 1; in its example world the
  top-hotels script exits with 0.
\<close>

theorem exit_code_cases_witness:
  "\<not> useUnprocessedOnly (parseArgs (CONFIG example_env) [])
   \<and> \<not> useRandomSampling (parseArgs (CONFIG example_env) [])
   \<and> fst (selectCohort (CONFIG example_env) (parseArgs (CONFIG example_env) [])
            ((example_world_with (\<lambda>t. 0 < t) (\<lambda>t. InsertThrows))
               \<lparr> tripAdvisorSearch := \<lambda>t n. NetworkFailure,
                 deepSeek := \<lambda>t s u. HttpReply False None \<rparr>)
            (initialState example_hotels [])) \<noteq> []
   \<and> fst (runIngestion example_env [] example_runtime
        ((example_world_with (\<lambda>t. 0 < t) (\<lambda>t. InsertThrows))
           \<lparr> tripAdvisorSearch := \<lambda>t n. NetworkFailure,
             deepSeek := \<lambda>t s u. HttpReply False None \<rparr>)
        example_hotels []) = 0
   \<and> \<not> useUnprocessedOnly (parseArgs (CONFIG example_env) [''--random=0''])
   \<and> useRandomSampling (parseArgs (CONFIG example_env) [''--random=0''])
   \<and> RANDOM_SAMPLE_COUNT (parseArgs (CONFIG example_env) [''--random=0'']) = Some 0
   \<and> fst (runIngestion example_env [''--random=0''] example_runtime example_world
        example_hotels []) = 1
   \<and> useUnprocessedOnly (parseArgs (CONFIG example_env) [''--unprocessed''])
   \<and> selectFails (example_world_with (\<lambda>t. t = 1) (\<lambda>t. Inserted)) 1
   \<and> fst (runIngestion example_env [''--unprocessed''] example_runtime
        (example_world_with (\<lambda>t. t = 1) (\<lambda>t. Inserted)) example_hotels []) = 1
   \<and> createClient example_runtime ''localhost'' ''set'' = Inl ClientError
   \<and> fst (runIngestion (example_env (''NEXT_PUBLIC_SUPABASE_URL'' := Some ''localhost'')) []
        example_runtime example_world example_hotels []) = 1
   \<and> fst (runIngestion_top (example_env (''NEXT_PUBLIC_SUPABASE_URL'' := Some ''localhost''))
        example_runtime example_world_top []) = 1
   \<and> fst (runIngestion_top example_env example_runtime example_world_top []) = 0"
proof -
  let ?w = "(example_world_with (\<lambda>t. 0 < t) (\<lambda>t. InsertThrows))
           \<lparr> tripAdvisorSearch := \<lambda>t n. NetworkFailure,
             deepSeek := \<lambda>t s u. HttpReply False None \<rparr>"
  let ?w3 = "example_world_with (\<lambda>t. t = 1) (\<lambda>t. Inserted)"
  let ?env = "example_env (''NEXT_PUBLIC_SUPABASE_URL'' := Some ''localhost'')"
  have f: "\<not> useUnprocessedOnly (parseArgs (CONFIG example_env) [])"
    "\<not> useRandomSampling (parseArgs (CONFIG example_env) [])"
    by (simp_all add: parseArgs_def)
  have f2: "\<not> useUnprocessedOnly (parseArgs (CONFIG example_env) [''--random=0''])"
    "useRandomSampling (parseArgs (CONFIG example_env) [''--random=0''])"
    "RANDOM_SAMPLE_COUNT (parseArgs (CONFIG example_env) [''--random=0'']) = Some 0"
    by (simp_all add: parseArgs_def parseInt10_def afterEquals_def digitOf_def
          digitsValue_def isSpace_def Let_def)
  have f3: "useUnprocessedOnly (parseArgs (CONFIG example_env) [''--unprocessed''])"
    by (simp add: parseArgs_def)
  have h: "filter (\<lambda>h. google_place_id h \<noteq> None) example_hotels \<noteq> []"
    by (simp add: example_hotels_def)
  have s: "\<not> selectFails ?w 0" "selectFails ?w3 1"
    by (simp_all add: example_world_with_def)
  have u: "\<not> unset example_env k" for k
    by (simp add: unset_def example_env_def)
  have u': "\<not> unset ?env k" for k
    by (simp add: unset_def example_env_def)
  have p: "matchSystemPrompt ''## System Prompt ```Be brief.```'' \<noteq> None"
    by (simp add: isSpace_def)
  have pf: "promptFile ?w = PromptContent ''## System Prompt ```Be brief.```''"
    "promptFile ?w3 = PromptContent ''## System Prompt ```Be brief.```''"
    "promptFile example_world = PromptContent ''## System Prompt ```Be brief.```''"
    "promptFile example_world_top = PromptContent ''## System Prompt ```Be brief.```''"
    by (simp_all add: example_world_top_def example_world_def example_world_with_def)
  have c: "createClient example_runtime (envOr example_env ''NEXT_PUBLIC_SUPABASE_URL'' [])
             (envOr example_env ''SUPABASE_SERVICE_ROLE_KEY'' []) = Inr ()"
    by (simp add: example_runtime_def example_env_def envOr_def)
  have c': "createClient example_runtime (envOr ?env ''NEXT_PUBLIC_SUPABASE_URL'' [])
             (envOr ?env ''SUPABASE_SERVICE_ROLE_KEY'' []) = Inl ClientError"
    "createClient example_runtime ''localhost'' ''set'' = Inl ClientError"
    by (simp_all add: example_runtime_def example_env_def envOr_def)
  from exit_code_cases [of example_env "[]" example_runtime ?w example_hotels "[]"] f h s u p pf c
  have 1: "fst (selectCohort (CONFIG example_env) (parseArgs (CONFIG example_env) []) ?w
            (initialState example_hotels [])) \<noteq> []
      \<and> fst (runIngestion example_env [] example_runtime ?w example_hotels []) = 0"
    by simp
  from exit_code_cases [of example_env "[''--random=0'']" example_runtime example_world
      example_hotels "[]"] f2 u p pf c
  have 2: "fst (runIngestion example_env [''--random=0''] example_runtime example_world
        example_hotels []) = 1"
    by simp
  from exit_code_cases [of example_env "[''--unprocessed'']" example_runtime ?w3
      example_hotels "[]"] f3 s u p pf c
  have 3: "fst (runIngestion example_env [''--unprocessed''] example_runtime ?w3
        example_hotels []) = 1"
    by simp
  from exit_code_cases [of ?env "[]" example_runtime example_world example_hotels "[]"]
    u' p pf c'
  have 4: "fst (runIngestion ?env [] example_runtime example_world example_hotels []) = 1"
    by simp
  from exit_code_cases [of ?env "[]" example_runtime example_world_top example_hotels "[]"]
    u' p pf c'
  have 5: "fst (runIngestion_top ?env example_runtime example_world_top []) = 1"
    by simp
  from exit_code_cases [of example_env "[]" example_runtime example_world_top example_hotels "[]"]
    u p pf c
  have 6: "fst (runIngestion_top example_env example_runtime example_world_top []) = 0"
    by simp
  from 1 2 3 4 5 6 f f2 f3 s c' show ?thesis
    by simp
qed

subsection \<open>C10: the gate fails open\<close>

text \<open>
  C10. The existence check is a total function of the store's answer: it returns a
  boolean for every answer, and the boolean is true only when the read succeeded and
  found a row. When the read errors (\<^verbatim>\<open>data\<close> is \<^verbatim>\<open>null\<close>) it returns false, whether or
  not the table holds a record of the review, and the driver goes on with the review:
  after the lookup it makes the model call and the insert, and the row lands in the
  table iff the store accepts the insert.
\<close>

theorem gate_fails_open:
  "checkExistingReport w i st =
     (\<not> selectFails w (clock st) \<and> recorded (reportsTable st) i, interact (StoreLookup i) st)
   \<and> (selectFails w (clock st) \<longrightarrow>
        selectByExternalId w i st = None
        \<and> \<not> fst (checkExistingReport w i st)
        \<and> processReview cfg rt w sp hn review st =
            st \<lparr> clock := clock st + 4,
                 trace := trace st @
                   [StoreLookup (rv_id review),
                    ModelCall sp (userPromptOf hn (rv_text review)
                      (Rep_unit_interval (mathRandom w (clock st + 1))
                         < ANONYMOUS_PROBABILITY cfg)),
                    StoreInsert (newRow cfg rt w sp hn review (clock st))],
                 totalReviews := totalReviews st + 1,
                 reportsTable :=
                   (if insertOutcome w (clock st + 3) = Inserted
                    then reportsTable st @ [newRow cfg rt w sp hn review (clock st)]
                    else reportsTable st),
                 successfulReports :=
                   (if insertOutcome w (clock st + 3) = Inserted
                    then successfulReports st + 1 else successfulReports st) \<rparr>)"
  by (simp add: checkExistingReport_eq selectByExternalId_def processReview_new)

text \<open>
  An instance: the table holds the record of the example review, the lookup errors, and
  the store rejects the insert (as its uniqueness constraint would).
\<close>

theorem gate_fails_open_witness:
  "selectFails (example_world_with (\<lambda>t. True) (\<lambda>t. InsertError)) 3
   \<and> recorded [example_row] (rv_id example_review)
   \<and> \<not> fst (checkExistingReport (example_world_with (\<lambda>t. True) (\<lambda>t. InsertError))
          (rv_id example_review)
          \<lparr> clock = 3, hotelsTable = example_hotels, reportsTable = [example_row],
             trace = [], totalReviews = 0, skippedReviews = 0, successfulReports = 0 \<rparr>)
   \<and> processReview (CONFIG example_env) example_runtime
        (example_world_with (\<lambda>t. True) (\<lambda>t. InsertError)) ''Be brief.'' ''Hotel One''
        example_review
        \<lparr> clock = 3, hotelsTable = example_hotels, reportsTable = [example_row],
           trace = [], totalReviews = 0, skippedReviews = 0, successfulReports = 0 \<rparr> =
       \<lparr> clock = 7, hotelsTable = example_hotels, reportsTable = [example_row],
         trace = [StoreLookup ''google_P1_R1'',
                  ModelCall ''Be brief.'' (userPromptOf ''Hotel One'' ''Bed bugs.'' False),
                  StoreInsert example_row],
         totalReviews = 1, skippedReviews = 0, successfulReports = 0 \<rparr>"
proof -
  have p: "ANONYMOUS_PROBABILITY (CONFIG example_env) = 3 / 10"
    by (simp add: CONFIG_def)
  show ?thesis
    using gate_fails_open [of "example_world_with (\<lambda>t. True) (\<lambda>t. InsertError)"
        "rv_id example_review"
        "\<lparr> clock = 3, hotelsTable = example_hotels, reportsTable = [example_row],
           trace = [], totalReviews = 0, skippedReviews = 0, successfulReports = 0 \<rparr>"
        "CONFIG example_env" example_runtime "''Be brief.''" "''Hotel One''" example_review]
      example_recorded
    by (simp add: example_world_fields example_newRow unit_half p example_review_fields)
qed

end
